theory Spec2Isabelle
  imports Main "HOL-Library.Word"
begin

section \<open>Durations and latency bucketing\<close>

text \<open>
  Go's \<open>time.Duration\<close> is a signed count of nanoseconds. Every duration of this
  development is a latency of at most a few seconds or a small multiple of one, far from
  the 64-bit range, so durations are integers.
\<close>

type_synonym Duration = int

definition Millisecond :: Duration where
  "Millisecond = 1000000"

definition Second :: Duration where
  "Second = 1000 * Millisecond"

definition MatchJoinGracePeriod :: Duration where
  "MatchJoinGracePeriod = 3 * Second"

text \<open>
  \<open>math.Round\<close> of the quotient \<open>a / b\<close>: to the nearest integer, a half away from
  zero, computed on the integers. The source divides two \<open>float64\<close> values and rounds the
  floating-point quotient. The two agree where the source uses the function, with the
  modulus of 10 ms and a duration below \<open>2 ^ 53\<close> ns (104 days): the duration converts
  exactly, and the floating-point quotient is a half only when the exact quotient is one.
  For longer durations and for other moduli the floating-point quotient may round the
  other way; nothing below depends on those.
\<close>

definition math_Round_div :: "int \<Rightarrow> int \<Rightarrow> int" where
  "math_Round_div a b = sgn a * sgn b * ((2 * \<bar>a\<bar> + \<bar>b\<bar>) div (2 * \<bar>b\<bar>))"

text \<open>\<open>mroundRTT\<close> (evr\_matchmaker.go): rounds the rtt to the nearest modulus.\<close>

definition mroundRTT :: "Duration \<Rightarrow> Duration \<Rightarrow> Duration" where
  "mroundRTT rtt modulus = math_Round_div rtt modulus * modulus"

section \<open>Comparators\<close>

text \<open>
  \<open>RTTweightedPopulationCmp i j o p\<close> is the \<open>less\<close> function of the Arena sort:
  \<open>True\<close> places the candidate with latency \<open>i\<close> and population \<open>o\<close> before the one
  with latency \<open>j\<close> and population \<open>p\<close>.
\<close>

definition RTTweightedPopulationCmp :: "Duration \<Rightarrow> Duration \<Rightarrow> int \<Rightarrow> int \<Rightarrow> bool" where
  "RTTweightedPopulationCmp i j o' p =
     (if i > 90 * Millisecond \<and> j < 90 * Millisecond then True
      else if i < 90 * Millisecond \<and> j > 90 * Millisecond then False
      else if o' > p then True
      else if o' < p then False
      else i < j)"

definition PopulationCmp :: "int \<Rightarrow> int \<Rightarrow> Duration \<Rightarrow> Duration \<Rightarrow> bool" where
  "PopulationCmp o' p i j = (if o' = p then i < j else o' > p)"

section \<open>The library's stable sort\<close>

text \<open>
  \<open>sort.SliceStable\<close> is the standard library's: an insertion sort on blocks of twenty
  elements, then in-place merges of the sorted blocks. The insertion sort takes each index
  \<open>i\<close> in turn and swaps the element at \<open>i\<close> leftwards while \<open>less\<close> puts it before its
  left neighbour; \<open>bubble\<close> is that inner loop, on the reversed prefix. A slice of at most
  twenty elements is one block, and the sort is the one insertion sort, which is the model
  here. The evaluations below are on slices within one block; what is proved for every
  input uses of the sort only that it permutes its input.
\<close>

fun bubble :: "('a \<Rightarrow> 'a \<Rightarrow> bool) \<Rightarrow> 'a \<Rightarrow> 'a list \<Rightarrow> 'a list" where
  "bubble lt x [] = [x]"
| "bubble lt x (y # rs) = (if lt x y then y # bubble lt x rs else x # y # rs)"

definition insertionSort :: "('a \<Rightarrow> 'a \<Rightarrow> bool) \<Rightarrow> 'a list \<Rightarrow> 'a list" where
  "insertionSort lt xs = rev (fold (bubble lt) xs [])"

definition SliceStable :: "('a \<Rightarrow> 'a \<Rightarrow> bool) \<Rightarrow> 'a list \<Rightarrow> 'a list" where
  "SliceStable lt xs = insertionSort lt xs"

section \<open>Identifiers, endpoints and session labels\<close>

text \<open>
  \<open>uuid.UUID\<close>. \<open>uuid_Nil\<close> is the zero value; \<open>NewV5 name\<close> is the name-based
  identifier \<open>uuid.NewV5(uuid.Nil, name)\<close>, a digest with its version bits set and so
  never zero; \<open>UUID s\<close> is any other identifier.
\<close>

datatype uuid = uuid_Nil | NewV5 string | UUID string

type_synonym Symbol = "64 word"

fun string_of_nat :: "nat \<Rightarrow> string" where
  "string_of_nat n =
     (if n < 10 then [''0123456789'' ! n]
      else string_of_nat (n div 10) @ [''0123456789'' ! (n mod 10)])"

declare string_of_nat.simps [simp del]

definition string_of_int :: "int \<Rightarrow> string" where
  "string_of_int i = (if i < 0 then CHR ''-'' # string_of_nat (nat (- i)) else string_of_nat (nat i))"

record Endpoint =
  InternalIP :: string
  ExternalIP :: string
  Port :: "16 word"

text \<open>
  Modelled from the spec: the method \<open>Endpoint.ID\<close> is not among the sources. The
  identity of an endpoint is a string derived from its externally reachable address and
  port.
\<close>

definition Endpoint_ID :: "Endpoint \<Rightarrow> string" where
  "Endpoint_ID e = ExternalIP e @ '':'' @ string_of_nat (unat (Port e))"

datatype LobbyType = PublicLobby | PrivateLobby | UnassignedLobby

text \<open>
  The game mode is a symbol; the source names three of its values and treats every other
  one alike.
\<close>

datatype GameMode = ModeArenaPublic | ModeCombatPublic | ModeSocialPublic | ModeOther Symbol

text \<open>The team index: the source compares it with two named roles only.\<close>

datatype TeamIndex = Spectator | Moderator | OtherTeam int

record MatchBroadcaster =
  SessionID :: string
  UserID :: string
  ServerId :: "64 word"
  Endpoint :: Endpoint
  Region :: Symbol
  VersionLock :: "64 word"
  HostedChannels :: "uuid list"
  Channels :: "uuid list"
  Tags :: "string list"

text \<open>
  \<open>EvrMatchState\<close>, the label of a session, with the fields the matchmaker reads.
  \<open>Channel\<close> is a pointer: \<open>None\<close> is nil.
\<close>

record EvrMatchState =
  MatchID :: uuid
  LobbyType :: LobbyType
  Mode :: GameMode
  TeamIndex :: TeamIndex
  Size :: int
  MaxSize :: int
  TeamSize :: int
  Players :: "string list"
  Broadcaster :: MatchBroadcaster
  Channel :: "uuid option"

text \<open>
  Modelled from the spec: the method \<open>EvrMatchState.ID\<close> is not among the sources. The
  match registry resolves a session by an opaque identifier, here its match id.
\<close>

definition EvrMatchState_ID :: "EvrMatchState \<Rightarrow> uuid" where
  "EvrMatchState_ID l = MatchID l"

record LatencyMetric =
  metric_Endpoint :: Endpoint
  metric_RTT :: Duration
  metric_Timestamp :: int

text \<open>
  Modelled from the spec: the method \<open>LatencyMetric.ID\<close> is not among the sources. A latency
  metric holds the identity of its endpoint.
\<close>

definition LatencyMetric_ID :: "LatencyMetric \<Rightarrow> string" where
  "LatencyMetric_ID r = Endpoint_ID (metric_Endpoint r)"

text \<open>
  One entry of a latency probe reply. Its type is not among the sources; the entry is
  taken by what its two methods return: \<open>EndpointID()\<close>, the endpoint it names, and
  \<open>RTT()\<close>, the round-trip time it reports.
\<close>

record EndpointPingResult =
  ping_EndpointID :: string
  ping_RTT :: Duration

text \<open>\<open>api.Match\<close>: the serialized label and the live size the registry reports.\<close>

record Match =
  match_Label :: string
  match_Size :: int

section \<open>Errors and effects\<close>

datatype codes =
  InvalidArgument | Internal | ResourceExhausted | FailedPrecondition | AlreadyExists
  | PermissionDenied

text \<open>
  Errors are values: the named sentinel errors, \<open>status.Errorf\<close> with its code,
  \<open>fmt.Errorf\<close>, both with the error they format when there is one, an error returned
  by a collaborator outside the sources, and a runtime panic, after which the call does
  not return.
\<close>

datatype error =
  ErrMatchmakingCanceled
  | ErrMatchmakingPingTimeout
  | ErrMatchmakingNoAvailableServers
  | Status codes string "error option"
  | Errorf string "error option"
  | External string
  | Panic string

fun is_Panic :: "error \<Rightarrow> bool" where
  "is_Panic (Panic s) = True"
| "is_Panic e = False"

datatype BroadcasterRegistrationFailureCode = BroadcasterRegistration_Failure

datatype message =
  LobbyPingRequest nat "Endpoint list"
  | STcpConnectionUnrequireEvent
  | BroadcasterRegistrationFailure BroadcasterRegistrationFailureCode
  | BroadcasterRegistrationSuccess "64 word" string

type_synonym float64 = "64 word"

record UserPresence =
  up_UserId :: string
  up_SessionId :: string
  up_Username :: string

record Presence =
  presence_Node :: string
  presence_SessionID :: string
  presence_UserID :: string
  presence_Username :: string

record PartyHandler =
  party_ID :: uuid
  party_members :: "Presence list"
  party_maxSize :: int

text \<open>
  The calls a flow makes on its collaborators, in order. Logging is left out.
\<close>

datatype event =
  ev_SendEvr "message list"
  | ev_Close error
  | ev_MatchList nat int int string
  | ev_MutexLock uuid
  | ev_MutexUnlock uuid
  | ev_MutexUnlockAfter Duration uuid
  | ev_GetMatch uuid
  | ev_BuildQuery "LatencyMetric list"
  | ev_LoadMatchmakingSettings string
  | ev_CustomCounter string
  | ev_PartyJoin uuid "Presence list"
  | ev_PartyCreate bool nat UserPresence
  | ev_TrackMulti string string
  | ev_MatchmakerAdd string "uuid option" string int int int "(string \<times> string) list" "(string \<times> float64) list"
  | ev_BroadcasterSession string string
  | ev_UserChannelCreate string
  | ev_ChannelMessageSend string "error option"
  | ev_Panic string
  | ev_CreateMatch string
  | ev_ProcessMatchJoin string

section \<open>The matchmaker's state and collaborators\<close>

text \<open>
  Go's map assignment \<open>m[k] = v\<close>, on an association list. Modelled from the spec: the
  keyed stores of the pipeline (\<open>matchBySession\<close>, \<open>broadcasterRegistrationBySession\<close>)
  and the session's record of its tickets are not among the sources; each holds one entry
  per key, and their \<open>Store\<close> is this write too. The \<open>Store\<close> of the latency cache is not
  this function: it is a parameter, \<open>CacheStore\<close> below.
\<close>

fun store :: "'k \<Rightarrow> 'v \<Rightarrow> ('k \<times> 'v) list \<Rightarrow> ('k \<times> 'v) list" where
  "store k v [] = [(k, v)]"
| "store k v ((k', v') # m) = (if k' = k then (k, v) # m else (k', v') # store k v m)"

record MatchmakingSettings =
  QueryAddon :: string
  GroupID :: string
  MinCount :: int
  MaxCount :: int
  CountMultiple :: int

text \<open>
  The state the flows read and write: the registry of broadcasters, the player's latency
  cache, the party registry, the matchmaking session's party and tickets, the
  registrations and parking sessions by connection, and the calls made so far.
\<close>

record world =
  broadcasters :: "(string \<times> Endpoint) list"
  LatencyCache :: "(string \<times> LatencyMetric) list"
  parties :: "(uuid \<times> PartyHandler) list"
  Party :: "PartyHandler option"
  tickets :: "(string \<times> string) list"
  broadcasterRegistrationBySession :: "(string \<times> MatchBroadcaster) list"
  matchBySession :: "(string \<times> string) list"
  events :: "event list"

definition emit :: "event list \<Rightarrow> world \<Rightarrow> world" where
  "emit evs w = w\<lparr>events := events w @ evs\<rparr>"

text \<open>
  The connection of a player or of a broadcaster, with what its transport answers to a
  send, its remote address, and the node it is served by.
\<close>

record sessionWS =
  session_ID :: string
  session_UserID :: string
  session_Username :: string
  ClientIP :: string
  node :: string
  SendEvr :: "message list \<Rightarrow> error option"

datatype occur = Must | MustNot | Should

text \<open>The values whose \<open>Query(occur, boost)\<close> method renders one predicate.\<close>

datatype qterm =
  OpenLobbyQ
  | LobbyTypeQ LobbyType
  | GameModeQ GameMode
  | MatchIdQ uuid
  | ChannelsQ "uuid list"
  | ChannelQ uuid
  | RegionQ Symbol

datatype qpart = Query qterm occur int | Raw string

text \<open>
  What the collaborators outside the sources answer: the registry's bookkeeping of
  broadcasters and latencies, the \<open>Store\<close> of the latency cache (given the key, the metric
  and the cache, the cache after it), the instants at which the session's context is
  cancelled and the probe results arrive (measured from the start of the wait, negative
  when before it, absent when they never do), the runtime's pick among the cases of a \<open>select\<close> that are ready
  together, the clock, the rendering of query predicates, the match registry, the JSON
  decoder (into a fresh struct, or into the one given), and the services \<open>MatchMake\<close>
  calls.
\<close>

record env =
  UpdateBroadcasters :: "Endpoint list \<Rightarrow> (string \<times> Endpoint) list \<Rightarrow> (string \<times> Endpoint) list"
  GetPingCandidates :: "(string \<times> LatencyMetric) list \<Rightarrow> Endpoint list \<Rightarrow> Endpoint list"
  GetLatencies :: "(string \<times> LatencyMetric) list \<Rightarrow> Endpoint list \<Rightarrow> (string \<times> LatencyMetric) list"
  CacheStore :: "string \<Rightarrow> LatencyMetric \<Rightarrow> (string \<times> LatencyMetric) list \<Rightarrow> (string \<times> LatencyMetric) list"
  ctx_done_at :: "Duration option"
  results_at :: "(Duration \<times> EndpointPingResult list) option"
  select_pick :: nat
  Now :: "nat \<Rightarrow> int"
  QueryOf :: "qterm \<Rightarrow> occur \<Rightarrow> int \<Rightarrow> string"
  MatchMaxSize :: int
  MatchList :: "nat \<Rightarrow> int \<Rightarrow> int \<Rightarrow> string \<Rightarrow> error + Match list"
  Unmarshal :: "string \<Rightarrow> EvrMatchState option \<Rightarrow> EvrMatchState option"
  GetMatch :: "uuid \<Rightarrow> Match option \<times> error option"
  BuildQuery :: "LatencyMetric list \<Rightarrow> error + (string \<times> (string \<times> string) list \<times> (string \<times> float64) list)"
  LoadMatchmakingSettings :: "string \<Rightarrow> error + MatchmakingSettings"
  PartyCreate :: "bool \<Rightarrow> nat \<Rightarrow> UserPresence \<Rightarrow> PartyHandler"
  ctxEvrID :: "string option"
  TrackMulti :: "string \<Rightarrow> string \<Rightarrow> bool"
  MatchmakerAdd :: "string \<Rightarrow> uuid option \<Rightarrow> string \<Rightarrow> error + string"

section \<open>PingEndpoints\<close>

text \<open>
  The \<open>select\<close> of \<open>PingEndpoints\<close> waits on three cases: the context's \<open>Done\<close>
  channel, a timer of five seconds started with the wait, and the channel of probe
  results. A case whose event happened before the wait began is ready when the \<open>select\<close>
  is entered, at the instant 0, however long before; \<open>ready_at\<close> is the instant from which
  a case can proceed. The \<open>select\<close> proceeds at the earliest instant at which any case
  can, with one of the cases that can proceed at that instant; among several the runtime
  picks one.
\<close>

datatype select_case = CaseDone | CaseTimer | CaseResults

definition PingWait :: Duration where
  "PingWait = 5 * Second"

fun min_opt :: "Duration option \<Rightarrow> Duration \<Rightarrow> Duration" where
  "min_opt None t = t"
| "min_opt (Some a) t = min a t"

definition ready_at :: "Duration \<Rightarrow> Duration" where
  "ready_at t = max 0 t"

fun case_time :: "env \<Rightarrow> select_case \<Rightarrow> Duration option" where
  "case_time e CaseDone = map_option ready_at (ctx_done_at e)"
| "case_time e CaseTimer = Some PingWait"
| "case_time e CaseResults = map_option (ready_at \<circ> fst) (results_at e)"

definition select_ready :: "env \<Rightarrow> select_case list" where
  "select_ready e =
     (let earliest = min_opt (case_time e CaseDone) (min_opt (case_time e CaseResults) PingWait)
      in filter (\<lambda>c. case_time e c = Some earliest) [CaseDone, CaseTimer, CaseResults])"

definition select_wait :: "env \<Rightarrow> select_case" where
  "select_wait e =
     (let ready = select_ready e
      in if ready = [] then CaseTimer else ready ! (select_pick e mod length ready))"

text \<open>
  \<open>results_after e t\<close>: the probe results have not arrived by the instant \<open>t\<close> (they
  arrive later, or never). \<open>ctx_done_after e t\<close>: the context is not cancelled by \<open>t\<close>.
  With \<open>t\<close> at least 0, the one is that the results' case cannot proceed by \<open>t\<close>, the
  other that the context's cannot.
\<close>

definition results_after :: "env \<Rightarrow> Duration \<Rightarrow> bool" where
  "results_after e t = (case results_at e of None \<Rightarrow> True | Some (tr, rs) \<Rightarrow> t < tr)"

definition ctx_done_after :: "env \<Rightarrow> Duration \<Rightarrow> bool" where
  "ctx_done_after e t = (case ctx_done_at e of None \<Rightarrow> True | Some td \<Rightarrow> t < td)"

definition sendPingRequest :: "world \<Rightarrow> sessionWS \<Rightarrow> Endpoint list \<Rightarrow> error option \<times> world" where
  "sendPingRequest w session candidates =
     (let msgs = [LobbyPingRequest 275 candidates, STcpConnectionUnrequireEvent]
      in (SendEvr session msgs, emit [ev_SendEvr msgs] w))"

text \<open>
  The loop over the probe results: a response whose endpoint is not in the registry of
  broadcasters is skipped; for every other one the cache's \<open>Store\<close> is called with the
  identity of the registered endpoint and a metric that holds the response's \<open>RTT()\<close> as it
  is. \<open>k\<close> counts the responses, for the clock.
\<close>

fun storeResults ::
  "env \<Rightarrow> (string \<times> Endpoint) list \<Rightarrow> nat \<Rightarrow> EndpointPingResult list \<Rightarrow>
   (string \<times> LatencyMetric) list \<Rightarrow> (string \<times> LatencyMetric) list" where
  "storeResults e bs k [] cache = cache"
| "storeResults e bs k (response # results) cache =
     (case map_of bs (ping_EndpointID response) of
        None \<Rightarrow> storeResults e bs (Suc k) results cache
      | Some broadcaster \<Rightarrow>
          (let r = \<lparr>metric_Endpoint = broadcaster, metric_RTT = ping_RTT response,
                    metric_Timestamp = Now e k\<rparr>
           in storeResults e bs (Suc k) results (CacheStore e (LatencyMetric_ID r) r cache)))"



definition getEndpointLatencies :: "env \<Rightarrow> world \<Rightarrow> Endpoint list \<Rightarrow> LatencyMetric list" where
  "getEndpointLatencies e w endpoints =
     (let endpointRTTs = GetLatencies e (LatencyCache w) endpoints
      in concat (map (\<lambda>ep. case map_of endpointRTTs (Endpoint_ID ep) of
                              None \<Rightarrow> [] | Some l \<Rightarrow> [l]) endpoints))"

definition PingEndpoints ::
  "env \<Rightarrow> world \<Rightarrow> sessionWS \<Rightarrow> Endpoint list \<Rightarrow> (error + LatencyMetric list) \<times> world" where
  "PingEndpoints e w session endpoints =
     (if length endpoints = 0 then (Inr [], w)
      else
        let w1 = w\<lparr>broadcasters := UpdateBroadcasters e endpoints (broadcasters w)\<rparr>;
            candidates = GetPingCandidates e (LatencyCache w1) endpoints
        in if length candidates > 0 then
             (case sendPingRequest w1 session candidates of
                (Some err, w2) \<Rightarrow> (Inl err, w2)
              | (None, w2) \<Rightarrow>
                  (case select_wait e of
                     CaseDone \<Rightarrow> (Inl ErrMatchmakingCanceled, w2)
                   | CaseTimer \<Rightarrow> (Inl ErrMatchmakingPingTimeout, w2)
                   | CaseResults \<Rightarrow>
                       (let results = (case results_at e of None \<Rightarrow> [] | Some (t, rs) \<Rightarrow> rs);
                            w3 = w2\<lparr>LatencyCache :=
                                      storeResults e (broadcasters w2) 0 results (LatencyCache w2)\<rparr>
                        in (Inr (getEndpointLatencies e w3 endpoints), w3))))
           else (Inr (getEndpointLatencies e w1 endpoints), w1))"

section \<open>MatchSort\<close>

record labelData =
  data_Id :: string
  data_Size :: int
  data_RTT :: Duration

text \<open>A Go map read: the zero value when the key is absent.\<close>

definition rtt_of :: "(string \<times> Duration) list \<Rightarrow> string \<Rightarrow> Duration" where
  "rtt_of endpointRTTs k = (case map_of endpointRTTs k of None \<Rightarrow> 0 | Some rtt \<Rightarrow> rtt)"

definition label_endpoint_ID :: "EvrMatchState \<Rightarrow> string" where
  "label_endpoint_ID label = Endpoint_ID (Endpoint (Broadcaster label))"

text \<open>
  The endpoints to probe, one per identity (the source collects them in a map and takes
  its values, in no particular order; here in the order of first appearance).
\<close>

definition uniqueEndpoints :: "EvrMatchState list \<Rightarrow> Endpoint list" where
  "uniqueEndpoints labels =
     map snd (fold (\<lambda>label m. store (label_endpoint_ID label) (Endpoint (Broadcaster label)) m)
                   labels [])"

definition roundedRTTs :: "LatencyMetric list \<Rightarrow> (string \<times> Duration) list" where
  "roundedRTTs result =
     fold (\<lambda>r m. store (Endpoint_ID (metric_Endpoint r)) (mroundRTT (metric_RTT r) (10 * Millisecond)) m)
          result []"

definition labelDatas :: "(string \<times> Duration) list \<Rightarrow> EvrMatchState list \<Rightarrow> labelData list" where
  "labelDatas endpointRTTs labels =
     concat (map (\<lambda>label.
        let id = label_endpoint_ID label; rtt = rtt_of endpointRTTs id
        in if rtt = 0 \<or> rtt > 270 * Millisecond then []
           else [\<lparr>data_Id = id, data_Size = Size label, data_RTT = rtt\<rparr>]) labels)"

definition sortDatas :: "GameMode \<Rightarrow> labelData list \<Rightarrow> labelData list" where
  "sortDatas mode datas =
     (case mode of
        ModeArenaPublic \<Rightarrow>
          SliceStable (\<lambda>a b. RTTweightedPopulationCmp (data_RTT a) (data_RTT b) (data_Size a) (data_Size b)) datas
      | _ \<Rightarrow>
          SliceStable (\<lambda>a b. PopulationCmp (data_Size a) (data_Size b) (data_RTT a) (data_RTT b)) datas)"

text \<open>
  The last loop: for each ranked entry, the first label whose endpoint has the entry's
  identity, and the entry's latency.
\<close>

definition filteredOf :: "EvrMatchState list \<Rightarrow> labelData list \<Rightarrow> (EvrMatchState \<times> Duration) list" where
  "filteredOf labels datas =
     concat (map (\<lambda>d. case find (\<lambda>label. label_endpoint_ID label = data_Id d) labels of
                         None \<Rightarrow> [] | Some label \<Rightarrow> [(label, data_RTT d)]) datas)"

text \<open>The part of \<open>MatchSort\<close> after the probe: filter, rank, and collect the labels.\<close>

definition rankLabels ::
  "GameMode \<Rightarrow> LatencyMetric list \<Rightarrow> EvrMatchState list \<Rightarrow> EvrMatchState list \<times> Duration list" where
  "rankLabels mode result labels =
     (let ranked = filteredOf labels (sortDatas mode (labelDatas (roundedRTTs result) labels))
      in (map fst ranked, map snd ranked))"

text \<open>
  \<open>MatchSort\<close>. The labels are pointers (\<open>None\<close> is nil, which \<open>MatchSearch\<close> leaves
  where a label does not decode); reading the endpoint of a nil label panics. \<open>mode\<close> is
  the mode of the matchmaking session's own label.
\<close>

definition MatchSort ::
  "env \<Rightarrow> world \<Rightarrow> sessionWS \<Rightarrow> GameMode \<Rightarrow> EvrMatchState option list \<Rightarrow>
   (error + EvrMatchState list \<times> Duration list) \<times> world" where
  "MatchSort e w session mode labels =
     (if length labels = 0 then (Inr ([], []), w)
      else if None \<in> set labels then (Inl (Panic ''nil pointer dereference''), w)
      else
        let ls = map the labels in
        case PingEndpoints e w session (uniqueEndpoints ls) of
          (Inl err, w1) \<Rightarrow> (Inl err, w1)
        | (Inr result, w1) \<Rightarrow> (Inr (rankLabels mode result ls), w1))"

section \<open>The match query\<close>

text \<open>\<open>strings.Join\<close>.\<close>

fun Join :: "string list \<Rightarrow> string \<Rightarrow> string" where
  "Join [] sep = []"
| "Join [x] sep = x"
| "Join (x # y # xs) sep = x @ sep @ Join (y # xs) sep"

text \<open>
  The predicates of \<open>buildMatchQueryFromLabel\<close>, in order. \<open>*ml.Channel\<close> reads through
  the pointer: a nil channel panics.
\<close>

definition matchQueryParts :: "EvrMatchState \<Rightarrow> error + qpart list" where
  "matchQueryParts ml =
     (let boost = 0;
          qparts = [Query OpenLobbyQ Must boost,
                    Query (LobbyTypeQ (LobbyType ml)) Must boost,
                    Query (GameModeQ (Mode ml)) Must boost];
          qparts = (if TeamIndex ml \<noteq> Spectator \<and> TeamIndex ml \<noteq> Moderator
                    then qparts @ [Raw (''+label.size:<='' @ string_of_int (Size ml))]
                    else qparts);
          qparts = (if MatchID ml \<noteq> uuid_Nil
                    then qparts @ [Query (MatchIdQ (MatchID ml)) MustNot boost]
                    else qparts);
          qparts = (if length (Channels (Broadcaster ml)) \<noteq> 0
                    then qparts @ [Query (ChannelsQ (Channels (Broadcaster ml))) Must 0]
                    else qparts)
      in case Channel ml of
           None \<Rightarrow> Inl (Panic ''nil pointer dereference'')
         | Some channel \<Rightarrow>
             (let qparts = (if channel \<noteq> uuid_Nil
                            then qparts @ [Query (ChannelQ channel) Should 3]
                            else qparts);
                  qparts = (if Region (Broadcaster ml) \<noteq> 0
                            then qparts @ [Query (RegionQ (Region (Broadcaster ml))) Should 2]
                            else qparts)
              in Inr qparts))"

fun render :: "env \<Rightarrow> qpart \<Rightarrow> string" where
  "render e (Query t oc boost) = QueryOf e t oc boost"
| "render e (Raw s) = s"

definition buildMatchQueryFromLabel :: "env \<Rightarrow> EvrMatchState \<Rightarrow> error + string" where
  "buildMatchQueryFromLabel e ml =
     (case matchQueryParts ml of
        Inl err \<Rightarrow> Inl err
      | Inr qparts \<Rightarrow> Inr (Join (map (render e) qparts) '' ''))"

section \<open>MatchSearch and Backfill\<close>

definition listMatches :: "env \<Rightarrow> world \<Rightarrow> nat \<Rightarrow> int \<Rightarrow> int \<Rightarrow> string \<Rightarrow> (error + Match list) \<times> world" where
  "listMatches e w limit minSize maxSize query =
     (MatchList e limit minSize maxSize query, emit [ev_MatchList limit minSize maxSize query] w)"

text \<open>
  \<open>MatchSearch\<close>: a listed match whose label does not decode leaves a nil entry in the
  slice of labels.
\<close>

definition MatchSearch ::
  "env \<Rightarrow> world \<Rightarrow> EvrMatchState \<Rightarrow> (error + EvrMatchState option list \<times> string) \<times> world" where
  "MatchSearch e w ml =
     (case buildMatchQueryFromLabel e ml of
        Inl err \<Rightarrow> (Inl err, w)
      | Inr query \<Rightarrow>
          (case listMatches e w 50 1 (MatchMaxSize e - 1) query of
             (Inl err, w1) \<Rightarrow> (Inl (Status Internal ''Failed to find matches'' (Some err)), w1)
           | (Inr matches, w1) \<Rightarrow>
               (Inr (map (\<lambda>m. Unmarshal e (match_Label m) None) matches, query), w1)))"

text \<open>
  The selection loop of \<open>Backfill\<close>, best candidate first. Each candidate is locked, its
  match fetched again and its label decoded over the candidate's; a candidate that fails
  a check is unlocked at once and the loop goes on; the one selected stays locked for the
  grace period. \<open>ti\<close> is the team index of the matchmaking session's own label.
\<close>

fun selectBackfill ::
  "env \<Rightarrow> TeamIndex \<Rightarrow> EvrMatchState list \<Rightarrow> event list \<Rightarrow> EvrMatchState option \<times> event list" where
  "selectBackfill e ti [] evs = (None, evs)"
| "selectBackfill e ti (label # labels) evs =
     (let id = EvrMatchState_ID label;
          evs1 = evs @ [ev_MutexLock id, ev_GetMatch id];
          skip = evs1 @ [ev_MutexUnlock id]
      in case GetMatch e id of
           (None, err) \<Rightarrow> selectBackfill e ti labels skip
         | (Some match, err) \<Rightarrow>
             (case Unmarshal e (match_Label match) (Some label) of
                None \<Rightarrow> selectBackfill e ti labels skip
              | Some live \<Rightarrow>
                  if err \<noteq> None then selectBackfill e ti labels skip
                  else if match_Size match > MaxSize live + 1 then selectBackfill e ti labels skip
                  else if ti \<noteq> Spectator \<and> ti \<noteq> Moderator
                          \<and> TeamSize live * 2 - int (length (Players live)) < 1
                    then selectBackfill e ti labels skip
                  else (Some live, evs1 @ [ev_MutexUnlockAfter MatchJoinGracePeriod id])))"

text \<open>
  \<open>Backfill\<close> returns the selected label, the query and an error. A panic below it is
  passed on as it is, not wrapped.
\<close>

definition Backfill ::
  "env \<Rightarrow> world \<Rightarrow> sessionWS \<Rightarrow> EvrMatchState \<Rightarrow>
   (EvrMatchState option \<times> string \<times> error option) \<times> world" where
  "Backfill e w session msessionLabel =
     (if LobbyType msessionLabel \<noteq> PublicLobby
      then ((None, '''', Some (Status InvalidArgument ''Cannot backfill private lobbies'' None)), w)
      else
        case MatchSearch e w msessionLabel of
          (Inl err, w1) \<Rightarrow>
            ((None, '''', Some (if is_Panic err then err
                                else Status Internal ''Failed to search for matches'' (Some err))), w1)
        | (Inr (labels, query), w1) \<Rightarrow>
            (case MatchSort e w1 session (Mode msessionLabel) labels of
               (Inl err, w2) \<Rightarrow>
                 ((None, query, Some (if is_Panic err then err
                                      else Status Internal ''Failed to filter matches'' (Some err))), w2)
             | (Inr (filtered, rtts), w2) \<Rightarrow>
                 if length filtered = 0 then ((None, query, None), w2)
                 else
                   (case selectBackfill e (TeamIndex msessionLabel) filtered [] of
                      (selected, evs) \<Rightarrow> ((selected, query, None), emit evs w2))))"

section \<open>joinPartyGroup and MatchMake\<close>

definition SystemUserID :: string where
  "SystemUserID = ''00000000-0000-0000-0000-000000000000''"

text \<open>
  \<open>joinPartyGroup\<close> returns the party handler and an error. The party of a group is looked
  up under the identifier derived from the group id: a party found with room is joined; a
  party found full gives the handler back with a resource-exhausted error and is not
  joined; with no party found, one is created.
\<close>

definition joinPartyGroup ::
  "env \<Rightarrow> world \<Rightarrow> string \<Rightarrow> string \<Rightarrow> string \<Rightarrow> string \<Rightarrow> string \<Rightarrow>
   (PartyHandler \<times> error option) \<times> world" where
  "joinPartyGroup e w userID sessionID username nodeName groupID =
     (let userPresence = \<lparr>up_UserId = userID, up_SessionId = sessionID, up_Username = username\<rparr>;
          presence = [\<lparr>presence_Node = nodeName, presence_SessionID = sessionID,
                       presence_UserID = userID, presence_Username = username\<rparr>];
          partyID = NewV5 groupID
      in case map_of (parties w) partyID of
           Some ph \<Rightarrow>
             if int (length (party_members ph)) < party_maxSize ph
             then ((ph, None), emit [ev_PartyJoin partyID presence] w)
             else ((ph, Some (Status ResourceExhausted ''Party is full'' None)),
                   emit [ev_CustomCounter ''partyregistry_error_party_full''] w)
         | None \<Rightarrow>
             ((PartyCreate e True 8 userPresence, None),
              emit [ev_CustomCounter ''partyregistry_create'', ev_PartyCreate True 8 userPresence] w))"

text \<open>
  The party step of \<open>MatchMake\<close>, taken when the player's settings name a group: the
  error of \<open>joinPartyGroup\<close> is logged and nothing else; the handler's id becomes the
  party id, the handler the session's party, and the group is added to the properties and
  to the query, whether or not the join succeeded.
\<close>

definition partyStep ::
  "env \<Rightarrow> world \<Rightarrow> sessionWS \<Rightarrow> MatchmakingSettings \<Rightarrow> string \<Rightarrow> (string \<times> string) list \<Rightarrow>
   (uuid \<times> string \<times> (string \<times> string) list) \<times> world" where
  "partyStep e w session config query stringProps =
     (if GroupID config \<noteq> '''' then
        (case joinPartyGroup e w (session_UserID session) (session_ID session)
                (session_Username session) (node session) (GroupID config) of
           ((ph, err), w1) \<Rightarrow>
             ((party_ID ph,
               query @ '' properties.party_group:'' @ GroupID config @ ''^5'',
               store ''party_group'' (GroupID config) stringProps),
              w1\<lparr>Party := Some ph\<rparr>))
      else ((uuid_Nil, query, stringProps), w))"

text \<open>The end of \<open>MatchMake\<close>: presence, the ticket, and its record in the session.\<close>

definition submitTicket ::
  "env \<Rightarrow> world \<Rightarrow> sessionWS \<Rightarrow> MatchmakingSettings \<Rightarrow> uuid \<Rightarrow> string \<Rightarrow>
   (string \<times> string) list \<Rightarrow> (string \<times> float64) list \<Rightarrow> (error + string) \<times> world" where
  "submitTicket e w session gconfig partyID query stringProps numericProps =
     (case ctxEvrID e of
        None \<Rightarrow> (Inl (Status Internal ''EVR ID not found in context'' None), w)
      | Some token \<Rightarrow>
          (let stringProps = store ''evr_id'' token stringProps;
               pID = (if partyID \<noteq> uuid_Nil then Some partyID else None);
               w1 = emit [ev_TrackMulti (session_ID session) query] w
           in if \<not> TrackMulti e (session_ID session) query
              then (Inl (Status Internal ''Failed to track user'' None), w1)
              else
                (let w2 = emit [ev_CustomCounter ''matchmaker_tickets'',
                                ev_MatchmakerAdd (session_ID session) pID query (MinCount gconfig)
                                  (MaxCount gconfig) (CountMultiple gconfig) stringProps numericProps] w1
                 in case MatchmakerAdd e (session_ID session) pID query of
                      Inl err \<Rightarrow> (Inl (Errorf ''failed to add to matchmaker'' (Some err)), w2)
                    | Inr ticket \<Rightarrow> (Inr ticket, w2\<lparr>tickets := store ticket query (tickets w2)\<rparr>))))"

text \<open>
  \<open>MatchMake\<close>: the registered broadcasters are probed, the query is built from the
  latencies, the global and the player's settings are loaded and merged into the query,
  then the party step and the ticket.
\<close>

definition MatchMake :: "env \<Rightarrow> world \<Rightarrow> sessionWS \<Rightarrow> (error + string) \<times> world" where
  "MatchMake e w session =
     (let endpoints = map snd (broadcasters w)
      in case PingEndpoints e w session endpoints of
           (Inl err, w1) \<Rightarrow> (Inl err, w1)
         | (Inr allRTTs, w1) \<Rightarrow>
             (let w2 = emit [ev_BuildQuery allRTTs] w1
              in case BuildQuery e allRTTs of
                   Inl err \<Rightarrow> (Inl (Status Internal ''Failed to build matchmaking query'' (Some err)), w2)
                 | Inr (query, stringProps, numericProps) \<Rightarrow>
                     (let w3 = emit [ev_LoadMatchmakingSettings SystemUserID] w2
                      in case LoadMatchmakingSettings e SystemUserID of
                           Inl err \<Rightarrow>
                             (Inl (Status Internal ''Failed to load global matchmaking config'' (Some err)), w3)
                         | Inr gconfig \<Rightarrow>
                             (let w4 = emit [ev_LoadMatchmakingSettings (session_UserID session)] w3
                              in case LoadMatchmakingSettings e (session_UserID session) of
                                   Inl err \<Rightarrow>
                                     (Inl (Status Internal ''Failed to load matchmaking config'' (Some err)), w4)
                                 | Inr config \<Rightarrow>
                                     (let query = query @ '' '' @ QueryAddon gconfig @ '' '' @ QueryAddon config
                                      in case partyStep e w4 session config query stringProps of
                                           ((partyID, query, stringProps), w5) \<Rightarrow>
                                             submitTicket e w5 session gconfig partyID query
                                               stringProps numericProps)))))"

section \<open>Broadcaster registration\<close>

text \<open>
  What the connection's context carries: the Discord id, the password and the URL
  parameters, each absent when the value is not there or not of its type.
\<close>

record regContext =
  ctxDiscordId :: "string option"
  ctxPassword :: "string option"
  ctxUrlParams :: "(string \<times> string list) list option"

text \<open>\<open>strings.Split\<close> on a one-character separator, and \<open>strings.Trim\<close> of one character.\<close>

fun Split :: "string \<Rightarrow> char \<Rightarrow> string list" where
  "Split [] sep = [[]]"
| "Split (c # cs) sep =
     (if c = sep then [] # Split cs sep
      else (case Split cs sep of [] \<Rightarrow> [[c]] | x # xs \<Rightarrow> (c # x) # xs))"

definition Trim :: "string \<Rightarrow> char \<Rightarrow> string" where
  "Trim s c = rev (dropWhile (\<lambda>x. x = c) (rev (dropWhile (\<lambda>x. x = c) s)))"

definition extractAuthenticationDetailsFromContext ::
  "regContext \<Rightarrow> error + (string \<times> string \<times> string list \<times> string list)" where
  "extractAuthenticationDetailsFromContext ctx =
     (case ctxDiscordId ctx of
        None \<Rightarrow> Inl (Errorf ''no url params provided'' None)
      | Some discordId \<Rightarrow>
          if discordId = [] then Inl (Errorf ''no url params provided'' None)
          else
            (case ctxPassword ctx of
               None \<Rightarrow> Inl (Errorf ''no url params provided'' None)
             | Some password \<Rightarrow>
                 if password = [] then Inl (Errorf ''no url params provided'' None)
                 else
                   (case ctxUrlParams ctx of
                      None \<Rightarrow> Inl (Errorf ''no url params provided'' None)
                    | Some params \<Rightarrow>
                        (let tags = (case map_of params ''tags'' of
                                       None \<Rightarrow> []
                                     | Some tagsets \<Rightarrow>
                                         concat (map (\<lambda>tagstr. Split tagstr (CHR '','')) tagsets));
                             guildIds = (case map_of params ''guilds'' of
                                           None \<Rightarrow> []
                                         | Some guildparams \<Rightarrow>
                                             concat (map (\<lambda>guildstr.
                                               filter (\<lambda>s. s \<noteq> [])
                                                 (map (\<lambda>guildId. Trim guildId (CHR '' ''))
                                                      (Split guildstr (CHR '','')))) guildparams));
                             guildIds = (if ''any'' \<in> set guildIds then [] else guildIds)
                         in Inr (discordId, password, tags, guildIds)))))"

record BroadcasterRegistrationRequest =
  req_ServerId :: "64 word"
  req_InternalIP :: string
  req_Port :: "16 word"
  req_Region :: Symbol
  req_VersionLock :: "64 word"

text \<open>
  What the network does on one health check: the errors of dialling, of setting the
  deadline, of drawing the random token and of writing, the token drawn, the outcome of
  the read, and the time from the write to the reply.
\<close>

datatype read_outcome = ReadTimeout | ReadError error | ReadBytes "8 word list"

record probe =
  dial_error :: "error option"
  deadline_error :: "error option"
  rand_error :: "error option"
  token :: "8 word list"
  write_error :: "error option"
  read_result :: read_outcome
  elapsed :: Duration

record GuildGroupMetadata =
  BroadcasterHostRole :: string

text \<open>
  The collaborators of the registration: the identity directory, the authentication, the
  broadcaster's session, the address cache and this system's own external address, the
  network, the guild registry, the match registry with the handler that joins the
  broadcaster to its parking match, the library's \<open>net.ParseIP\<close>, and the Discord bot:
  whether the registry has one, and the ID of the channel it creates for a user, absent
  when the channel it returns is nil. An address is held in its text form, as the
  endpoints hold it.
\<close>

record reg_env =
  GetUserIdByDiscordId :: "string \<Rightarrow> error + string"
  AuthenticateEmail :: "string \<Rightarrow> string \<Rightarrow> error + string \<times> string"
  BroadcasterSession :: "string \<Rightarrow> string \<Rightarrow> error option"
  placeholderEmail :: string
  isPrivateIP :: "string \<Rightarrow> bool"
  externalIP :: string
  network :: "string \<Rightarrow> nat \<Rightarrow> Duration \<Rightarrow> probe"
  GetGuildGroups :: "string \<Rightarrow> error + string list"
  Get :: "string \<Rightarrow> string option"
  GetGuildMember :: "string \<Rightarrow> string \<Rightarrow> error + string list"
  GetGuildGroupMetadata :: "string \<Rightarrow> error + GuildGroupMetadata option"
  FromStringOrNil :: "string \<Rightarrow> uuid"
  NewEvrMatchState :: "MatchBroadcaster \<Rightarrow> string \<Rightarrow> error + string"
  CreateMatch :: "string \<Rightarrow> error + string"
  ProcessRequest :: "string \<Rightarrow> bool"
  ParseIP :: "string \<Rightarrow> string"
  GetBot :: bool
  UserChannelCreate :: "string \<Rightarrow> string option"

text \<open>
  \<open>sendDiscordError\<close> sends an error message to the user on Discord. With a bot and a
  Discord id that is not empty, it creates the user's channel and sends the message to the
  ID of that channel; the channel is a pointer, read without a check. The errors of the
  two calls are logged and nothing else. The message is a fixed prefix and the text of the
  error; the log keeps the error.
\<close>

definition sendDiscordError :: "reg_env \<Rightarrow> world \<Rightarrow> error option \<Rightarrow> string \<Rightarrow> world" where
  "sendDiscordError e w err discordId =
     (if GetBot e \<and> discordId \<noteq> '''' then
        (let w1 = emit [ev_UserChannelCreate discordId] w
         in case UserChannelCreate e discordId of
              None \<Rightarrow> emit [ev_Panic ''nil pointer dereference''] w1
            | Some channelID \<Rightarrow> emit [ev_ChannelMessageSend channelID err] w1)
      else w)"

text \<open>
  \<open>errFailedRegistration\<close>, by its comment in the source, sends a failure message to the
  broadcaster and closes the session. Its body sends the failure message; when the send
  fails it returns that error at once; otherwise it closes the session and returns the
  registration error.
\<close>

definition errFailedRegistration ::
  "world \<Rightarrow> sessionWS \<Rightarrow> error \<Rightarrow> BroadcasterRegistrationFailureCode \<Rightarrow> error \<times> world" where
  "errFailedRegistration w session err code =
     (let msgs = [BroadcasterRegistrationFailure code];
          w1 = emit [ev_SendEvr msgs] w
      in case SendEvr session msgs of
           Some sendErr \<Rightarrow> (Errorf ''failed to send lobby registration failure'' (Some sendErr), w1)
         | None \<Rightarrow> (Errorf ''failed to register game server'' (Some err), emit [ev_Close err] w1))"

definition authenticateBroadcaster ::
  "reg_env \<Rightarrow> world \<Rightarrow> string \<Rightarrow> string \<Rightarrow> (error + string \<times> string) \<times> world" where
  "authenticateBroadcaster e w discordId password =
     (case GetUserIdByDiscordId e discordId of
        Inl err \<Rightarrow> (Inl (Errorf ''failed to find user for Discord ID'' (Some err)), w)
      | Inr userId \<Rightarrow>
          (case AuthenticateEmail e (userId @ ''@'' @ placeholderEmail e) password of
             Inl err \<Rightarrow> (Inl (Errorf ''password authentication failure'' None), w)
           | Inr (userId, username) \<Rightarrow>
               (let w1 = emit [ev_BroadcasterSession userId (''broadcaster:'' @ username)] w
                in case BroadcasterSession e userId (''broadcaster:'' @ username) of
                     Some err \<Rightarrow> (Inl (Errorf ''failed to create broadcaster session'' (Some err)), w1)
                   | None \<Rightarrow> (Inr (userId, username), w1))))"

definition broadcasterConfig ::
  "string \<Rightarrow> string \<Rightarrow> 64 word \<Rightarrow> string \<Rightarrow> string \<Rightarrow> 16 word \<Rightarrow> Symbol \<Rightarrow> 64 word \<Rightarrow>
   string list \<Rightarrow> MatchBroadcaster" where
  "broadcasterConfig userId sessionId serverId internalIP extIP port region versionLock tags =
     \<lparr>SessionID = sessionId, UserID = userId, ServerId = serverId,
      Endpoint = \<lparr>InternalIP = internalIP, ExternalIP = extIP, Port = port\<rparr>,
      Region = region, VersionLock = versionLock, HostedChannels = [], Channels = [],
      Tags = (if length tags > 0 then tags else [])\<rparr>"

text \<open>\<open>binary.LittleEndian.Uint64\<close> of the first eight bytes.\<close>

definition LittleEndian_Uint64 :: "8 word list \<Rightarrow> 64 word" where
  "LittleEndian_Uint64 bs = foldr (\<lambda>b acc. ucast b + 256 * acc) (take 8 bs) 0"

definition RawPingAcknowledgeMessageSymbol :: "64 word" where
  "RawPingAcknowledgeMessageSymbol = 0x4F7AE556E0B77891"

text \<open>
  \<open>BroadcasterHealthcheck\<close> returns a round-trip time and an error: \<open>-1\<close> with an error
  when the read times out, \<open>0\<close> with an error on every other failure, and the measured time
  with no error when the acknowledgement carries the token sent. The reply is read into a
  zeroed buffer of sixteen bytes.
\<close>

definition BroadcasterHealthcheck :: "probe \<Rightarrow> Duration \<times> error option" where
  "BroadcasterHealthcheck net =
     (if dial_error net \<noteq> None
        then (0, Some (Errorf ''could not establish connection'' (dial_error net)))
      else if deadline_error net \<noteq> None
        then (0, Some (Errorf ''could not set deadline for connection'' (deadline_error net)))
      else if rand_error net \<noteq> None
        then (0, Some (Errorf ''could not generate random number for ping request'' (rand_error net)))
      else if write_error net \<noteq> None
        then (0, Some (Errorf ''could not send ping request'' (write_error net)))
      else
        (case read_result net of
           ReadTimeout \<Rightarrow> (- 1, Some (Errorf ''ping request timed out'' None))
         | ReadError err \<Rightarrow> (0, Some (Errorf ''could not read ping response'' (Some err)))
         | ReadBytes bytes \<Rightarrow>
             (let response = take 16 (bytes @ replicate 16 0);
                  rtt = elapsed net
              in if LittleEndian_Uint64 (take 8 response) \<noteq> RawPingAcknowledgeMessageSymbol
                   then (0, Some (Errorf ''received unexpected response'' None))
                 else if LittleEndian_Uint64 (drop 8 response) \<noteq> LittleEndian_Uint64 (token net)
                   then (0, Some (Errorf ''received unexpected response'' None))
                 else (rtt, None))))"

text \<open>
  The validation loop of \<open>getBroadcasterHostInfo\<close>: a guild is kept when the user is a
  member of it, its group is known, its metadata is read, and the host role is blank or
  among the member's roles. The metadata is a pointer, read without a check.
\<close>

fun validateGuilds :: "reg_env \<Rightarrow> string \<Rightarrow> string list \<Rightarrow> error + string list" where
  "validateGuilds e discordId [] = Inr []"
| "validateGuilds e discordId (guildId # guildIds) =
     (if guildId = [] then validateGuilds e discordId guildIds
      else
        (case GetGuildMember e guildId discordId of
           Inl err \<Rightarrow> validateGuilds e discordId guildIds
         | Inr roles \<Rightarrow>
             (case Get e guildId of
                None \<Rightarrow> validateGuilds e discordId guildIds
              | Some groupId \<Rightarrow>
                  (case GetGuildGroupMetadata e groupId of
                     Inl err \<Rightarrow> validateGuilds e discordId guildIds
                   | Inr None \<Rightarrow> Inl (Panic ''nil pointer dereference'')
                   | Inr (Some md) \<Rightarrow>
                       if BroadcasterHostRole md = [] \<or> BroadcasterHostRole md \<in> set roles
                       then map_sum id (Cons guildId) (validateGuilds e discordId guildIds)
                       else validateGuilds e discordId guildIds))))"

definition getBroadcasterHostInfo ::
  "reg_env \<Rightarrow> string \<Rightarrow> string \<Rightarrow> string list \<Rightarrow> error + uuid list" where
  "getBroadcasterHostInfo e userId discordId guildIds =
     (case (if length guildIds = 0 then
              (case GetGuildGroups e userId of
                 Inl err \<Rightarrow> Inl (Errorf ''failed to get guild groups of the user'' (Some err))
               | Inr groups \<Rightarrow>
                   Inr (guildIds @ concat (map (\<lambda>g. case Get e g of None \<Rightarrow> [] | Some guildId \<Rightarrow> [guildId])
                                               groups)))
            else Inr guildIds) of
        Inl err \<Rightarrow> Inl err
      | Inr guildIds \<Rightarrow>
          (case validateGuilds e discordId guildIds of
             Inl err \<Rightarrow> Inl err
           | Inr allowed \<Rightarrow>
               Inr (concat (map (\<lambda>guildId. case Get e guildId of
                                              None \<Rightarrow> []
                                            | Some groupId \<Rightarrow> [FromStringOrNil e groupId]) allowed))))"

text \<open>
  \<open>newParkingMatch\<close> creates the empty match for the broadcaster and has its connection
  join it.
\<close>

definition newParkingMatch ::
  "reg_env \<Rightarrow> world \<Rightarrow> sessionWS \<Rightarrow> MatchBroadcaster \<Rightarrow> error option \<times> world" where
  "newParkingMatch e w session config =
     (case NewEvrMatchState e config (session_ID session) of
        Inl err \<Rightarrow> (Some (Errorf ''failed to create match state'' (Some err)), w)
      | Inr params \<Rightarrow>
          (let w1 = emit [ev_CreateMatch params] w
           in case CreateMatch e params of
                Inl err \<Rightarrow> (Some (Errorf ''failed to create match'' (Some err)), w1)
              | Inr matchId \<Rightarrow>
                  (let w2 = emit [ev_ProcessMatchJoin matchId] w1
                   in if \<not> ProcessRequest e matchId
                      then (Some (Errorf ''failed process join request'' None), w2)
                      else (None, w2\<lparr>matchBySession :=
                                       store (session_ID session) matchId (matchBySession w2)\<rparr>))))"

text \<open>
  \<open>broadcasterRegistrationRequest\<close>, stage by stage: the authentication details, the
  authentication, the health check of the external address (this system's own when the
  connection comes from a private address), the hosted channels, the record of the
  registration, the parking match, and the confirmation. The address of the connection
  goes through \<open>net.ParseIP\<close> first. The lookup of geographic data, whose result is never
  read, is left out. \<open>sendDiscordError\<close> runs in a goroutine of its own: the log records
  its calls where the goroutine is started, and a panic in it, which ends the process, as
  the last of them; the steps of the handler after it are those it makes when it reaches
  its return first. A panic of the handler itself is passed on as it is.
\<close>

definition failed :: "error \<times> world \<Rightarrow> error option \<times> world" where
  "failed r = (Some (fst r), snd r)"

definition registerChannels ::
  "reg_env \<Rightarrow> world \<Rightarrow> sessionWS \<Rightarrow> MatchBroadcaster \<Rightarrow> uuid list \<Rightarrow> error option \<times> world" where
  "registerChannels e w session config channels =
     (let config = config\<lparr>HostedChannels := channels\<rparr>;
          w1 = w\<lparr>broadcasterRegistrationBySession :=
                   store (session_ID session) config (broadcasterRegistrationBySession w)\<rparr>
      in case newParkingMatch e w1 session config of
           (Some err, w2) \<Rightarrow> failed (errFailedRegistration w2 session err BroadcasterRegistration_Failure)
         | (None, w2) \<Rightarrow>
             (let msgs = [BroadcasterRegistrationSuccess (ServerId config) (ExternalIP (Endpoint config)),
                          STcpConnectionUnrequireEvent];
                  w3 = emit [ev_SendEvr msgs] w2
              in case SendEvr session msgs of
                   Some err \<Rightarrow>
                     failed (errFailedRegistration w3 session
                       (Errorf ''failed to send lobby registration failure'' (Some err))
                       BroadcasterRegistration_Failure)
                 | None \<Rightarrow> (None, w3)))"

definition broadcasterRegistrationRequest ::
  "reg_env \<Rightarrow> world \<Rightarrow> regContext \<Rightarrow> sessionWS \<Rightarrow> BroadcasterRegistrationRequest \<Rightarrow>
   error option \<times> world" where
  "broadcasterRegistrationRequest e w ctx session request =
     (case extractAuthenticationDetailsFromContext ctx of
        Inl err \<Rightarrow> failed (errFailedRegistration w session err BroadcasterRegistration_Failure)
      | Inr (discordId, password, tags, guildIds) \<Rightarrow>
          (case authenticateBroadcaster e w discordId password of
             (Inl err, w1) \<Rightarrow> failed (errFailedRegistration w1 session err BroadcasterRegistration_Failure)
           | (Inr (userId, username), w1) \<Rightarrow>
               (let extIP = ParseIP e (ClientIP session);
                    extIP = (if isPrivateIP e extIP then externalIP e else extIP);
                    config = broadcasterConfig userId (session_ID session) (req_ServerId request)
                               (req_InternalIP request) extIP (req_Port request) (req_Region request)
                               (req_VersionLock request) tags
                in case BroadcasterHealthcheck
                          (network e (ExternalIP (Endpoint config)) (unat (Port (Endpoint config)))
                             (500 * Millisecond)) of
                     (rtt, err) \<Rightarrow>
                       if rtt < 0 \<or> err \<noteq> None then
                         failed (errFailedRegistration (sendDiscordError e w1 err discordId) session
                                   (Errorf ''broadcaster failed availability check'' err)
                                   BroadcasterRegistration_Failure)
                       else
                         (case getBroadcasterHostInfo e userId discordId guildIds of
                            Inl err \<Rightarrow>
                              if is_Panic err then (Some err, w1)
                              else failed (errFailedRegistration w1 session err
                                             BroadcasterRegistration_Failure)
                          | Inr channels \<Rightarrow> registerChannels e w1 session config channels))))"

text \<open>
  \<open>broadcasterSessionEnded\<close>: a new parking match from the registration stored for the
  connection.
\<close>

definition broadcasterSessionEnded :: "reg_env \<Rightarrow> world \<Rightarrow> sessionWS \<Rightarrow> error option \<times> world" where
  "broadcasterSessionEnded e w session =
     (case map_of (broadcasterRegistrationBySession w) (session_ID session) of
        None \<Rightarrow> (Some (Errorf ''broadcaster session not found'' None), w)
      | Some config \<Rightarrow> newParkingMatch e w session config)"

section \<open>A concrete scenario\<close>

text \<open>
  Two broadcasters and a session on each, a registry that keeps broadcasters by identity,
  a cache that is probed for the endpoints it does not hold, and collaborators that
  answer without error.
\<close>

definition endpoint_A :: Endpoint where
  "endpoint_A = \<lparr>InternalIP = ''10.0.0.1'', ExternalIP = ''198.51.100.1'', Port = 6792\<rparr>"

definition endpoint_B :: Endpoint where
  "endpoint_B = \<lparr>InternalIP = ''10.0.0.2'', ExternalIP = ''198.51.100.2'', Port = 6792\<rparr>"

definition broadcaster_of :: "Endpoint \<Rightarrow> MatchBroadcaster" where
  "broadcaster_of ep =
     \<lparr>SessionID = ''s'', UserID = ''u'', ServerId = 1, Endpoint = ep, Region = 0,
      VersionLock = 0, HostedChannels = [], Channels = [UUID ''guild-1''], Tags = []\<rparr>"

definition label_of :: "string \<Rightarrow> Endpoint \<Rightarrow> int \<Rightarrow> EvrMatchState" where
  "label_of name ep population =
     \<lparr>MatchID = UUID name, LobbyType = PublicLobby, Mode = ModeArenaPublic,
      TeamIndex = OtherTeam 0, Size = population, MaxSize = 15, TeamSize = 4, Players = [],
      Broadcaster = broadcaster_of ep, Channel = Some (UUID ''guild-1'')\<rparr>"

definition label_A :: EvrMatchState where
  "label_A = label_of ''match-A'' endpoint_A 5"

definition label_B :: EvrMatchState where
  "label_B = label_of ''match-B'' endpoint_B 10"

definition metric :: "Endpoint \<Rightarrow> Duration \<Rightarrow> LatencyMetric" where
  "metric ep rtt = \<lparr>metric_Endpoint = ep, metric_RTT = rtt, metric_Timestamp = 0\<rparr>"

definition session_1 :: sessionWS where
  "session_1 =
     \<lparr>session_ID = ''session-1'', session_UserID = ''user-1'', session_Username = ''player'',
      ClientIP = ''203.0.113.7'', node = ''node1'', SendEvr = (\<lambda>msgs. None)\<rparr>"

definition settings_1 :: MatchmakingSettings where
  "settings_1 = \<lparr>QueryAddon = '''', GroupID = '''', MinCount = 2, MaxCount = 8, CountMultiple = 2\<rparr>"

text \<open>A rendering of query predicates, for the scenario.\<close>

definition example_Query :: "qterm \<Rightarrow> occur \<Rightarrow> int \<Rightarrow> string" where
  "example_Query t oc boost =
     (case oc of Must \<Rightarrow> ''+'' | MustNot \<Rightarrow> ''-'' | Should \<Rightarrow> [])
     @ (case t of
          OpenLobbyQ \<Rightarrow> ''label.open''
        | LobbyTypeQ lt \<Rightarrow> ''label.lobby_type''
        | GameModeQ m \<Rightarrow> ''label.mode''
        | MatchIdQ u \<Rightarrow> ''label.id''
        | ChannelsQ cs \<Rightarrow> ''label.broadcaster.channels''
        | ChannelQ c \<Rightarrow> ''label.channel''
        | RegionQ r \<Rightarrow> ''label.broadcaster.region'')
     @ (if boost = 0 then [] else ''^'' @ string_of_int boost)"

definition env_1 :: env where
  "env_1 =
     \<lparr>UpdateBroadcasters = (\<lambda>eps bs. fold (\<lambda>ep m. store (Endpoint_ID ep) ep m) eps bs),
      GetPingCandidates = (\<lambda>cache eps. filter (\<lambda>ep. map_of cache (Endpoint_ID ep) = None) eps),
      GetLatencies = (\<lambda>cache eps. cache),
      CacheStore = store,
      ctx_done_at = None,
      results_at = None,
      select_pick = 0,
      Now = (\<lambda>k. 0),
      QueryOf = example_Query,
      MatchMaxSize = 16,
      MatchList = (\<lambda>limit minSize maxSize query. Inr []),
      Unmarshal = (\<lambda>value into. None),
      GetMatch = (\<lambda>id. (None, None)),
      BuildQuery = (\<lambda>rtts. Inr (''+label.open:T'', [], [])),
      LoadMatchmakingSettings = (\<lambda>userID. Inr settings_1),
      PartyCreate = (\<lambda>open' maxSize presence.
        \<lparr>party_ID = UUID ''party-new'', party_members = [], party_maxSize = int maxSize\<rparr>),
      ctxEvrID = Some ''OVR-ORG-1'',
      TrackMulti = (\<lambda>sessionID query. True),
      MatchmakerAdd = (\<lambda>sessionID partyID query. Inr ''ticket-1'')\<rparr>"

definition world_0 :: world where
  "world_0 =
     \<lparr>broadcasters = [], LatencyCache = [], parties = [], Party = None, tickets = [],
      broadcasterRegistrationBySession = [], matchBySession = [], events = []\<rparr>"

definition world_AB :: "Duration \<Rightarrow> Duration \<Rightarrow> world" where
  "world_AB rttA rttB =
     world_0\<lparr>broadcasters := [(Endpoint_ID endpoint_A, endpoint_A), (Endpoint_ID endpoint_B, endpoint_B)],
             LatencyCache := [(Endpoint_ID endpoint_A, metric endpoint_A rttA),
                              (Endpoint_ID endpoint_B, metric endpoint_B rttB)]\<rparr>"


text \<open>The context cancelled one second into the wait, and no reply.\<close>

definition env_cancel :: env where
  "env_cancel = env_1\<lparr>ctx_done_at := Some (1 * Second)\<rparr>"

text \<open>
  A search that lists the session on the second broadcaster with room to spare, and a match
  registry in which that session has since filled up: sixteen presences, its fifteen
  places and the broadcaster.
\<close>

definition label_B_live :: EvrMatchState where
  "label_B_live = label_B\<lparr>Size := 15, Players := replicate 15 ''player''\<rparr>"

definition env_backfill :: env where
  "env_backfill =
     env_1\<lparr>MatchList := (\<lambda>limit minSize maxSize query.
               Inr [\<lparr>match_Label = ''B-listed'', match_Size = 11\<rparr>]),
           Unmarshal := (\<lambda>value into. map_of [(''B-listed'', label_B), (''B-live'', label_B_live)] value),
           GetMatch := (\<lambda>id. if id = UUID ''match-B''
                              then (Some \<lparr>match_Label = ''B-live'', match_Size = 16\<rparr>, None)
                              else (None, None))\<rparr>"

definition label_spectator :: EvrMatchState where
  "label_spectator = (label_of ''match-own'' endpoint_A 1)\<lparr>TeamIndex := Spectator\<rparr>"

text \<open>A player whose settings name a party group, and a party of that group that is full.\<close>

definition presence_of :: "string \<Rightarrow> Presence" where
  "presence_of name =
     \<lparr>presence_Node = ''node1'', presence_SessionID = name, presence_UserID = name,
      presence_Username = name\<rparr>"

definition party_full :: PartyHandler where
  "party_full =
     \<lparr>party_ID = NewV5 ''group-1'', party_members = [presence_of ''p1'', presence_of ''p2''],
      party_maxSize = 2\<rparr>"

definition env_party :: env where
  "env_party = env_1\<lparr>LoadMatchmakingSettings := (\<lambda>userID.
     if userID = SystemUserID then Inr settings_1 else Inr (settings_1\<lparr>GroupID := ''group-1''\<rparr>))\<rparr>"

definition world_party :: "PartyHandler \<Rightarrow> world" where
  "world_party ph = world_0\<lparr>parties := [(NewV5 ''group-1'', ph)]\<rparr>"

definition query_spectator :: string where
  "query_spectator = ''+label.open +label.lobby_type +label.mode -label.id +label.broadcaster.channels label.channel^3''"

text \<open>
  A broadcaster that authenticates and whose endpoint does not answer the health check
  within the deadline, on a connection that takes the failure message and on one that
  does not.
\<close>

definition probe_timeout :: probe where
  "probe_timeout =
     \<lparr>dial_error = None, deadline_error = None, rand_error = None,
      token = [1, 2, 3, 4, 5, 6, 7, 8], write_error = None, read_result = ReadTimeout,
      elapsed = 500 * Millisecond\<rparr>"

definition reg_env_1 :: reg_env where
  "reg_env_1 =
     \<lparr>GetUserIdByDiscordId = (\<lambda>discordId. Inr ''user-b''),
      AuthenticateEmail = (\<lambda>email password. Inr (''user-b'', ''host'')),
      BroadcasterSession = (\<lambda>userId username. None),
      placeholderEmail = ''example.invalid'',
      isPrivateIP = (\<lambda>ip. False),
      externalIP = ''203.0.113.1'',
      network = (\<lambda>ip port timeout. probe_timeout),
      GetGuildGroups = (\<lambda>userId. Inr []),
      Get = (\<lambda>id. None),
      GetGuildMember = (\<lambda>guildId discordId. Inr []),
      GetGuildGroupMetadata = (\<lambda>groupId. Inr (Some \<lparr>BroadcasterHostRole = []\<rparr>)),
      FromStringOrNil = UUID,
      NewEvrMatchState = (\<lambda>config sessionId. Inr ''params''),
      CreateMatch = (\<lambda>params. Inr ''parking-1''),
      ProcessRequest = (\<lambda>matchId. True),
      ParseIP = (\<lambda>s. s),
      GetBot = True,
      UserChannelCreate = (\<lambda>discordId. Some (''dm-'' @ discordId))\<rparr>"

definition ctx_b :: regContext where
  "ctx_b = \<lparr>ctxDiscordId = Some ''1234'', ctxPassword = Some ''secret'',
            ctxUrlParams = Some [(''guilds'', [''any''])]\<rparr>"

definition session_b :: sessionWS where
  "session_b = session_1\<lparr>session_ID := ''session-b''\<rparr>"

definition session_b_broken :: sessionWS where
  "session_b_broken = session_b\<lparr>SendEvr := (\<lambda>msgs. Some (External ''connection reset''))\<rparr>"

definition request_b :: BroadcasterRegistrationRequest where
  "request_b =
     \<lparr>req_ServerId = 7, req_InternalIP = ''10.0.0.9'', req_Port = 6792, req_Region = 0,
      req_VersionLock = 0\<rparr>"





text \<open>The context cancelled two seconds before the wait begins, and no reply.\<close>

definition env_cancelled_before :: env where
  "env_cancelled_before = env_1\<lparr>ctx_done_at := Some (- 2 * Second)\<rparr>"

section \<open>Properties\<close>

subsection \<open>The sort, the call log, and the flows that stop before any call\<close>

lemma set_bubble: "set (bubble lt x rs) = insert x (set rs)"
  by (induction rs) auto

lemma set_fold_bubble: "set (fold (bubble lt) xs acc) = set xs \<union> set acc"
  by (induction xs arbitrary: acc) (auto simp: set_bubble)

lemma set_SliceStable: "set (SliceStable lt xs) = set xs"
  by (simp add: SliceStable_def insertionSort_def set_fold_bubble)

lemma events_emit: "events (emit evs w) = events w @ evs"
  by (simp add: emit_def)

lemma events_joinPartyGroup:
  "\<exists>rest. events (snd (joinPartyGroup e w u s n nd g)) = events w @ rest"
  by (simp add: joinPartyGroup_def Let_def events_emit split: option.splits)

lemma events_partyStep:
  "\<exists>rest. events (snd (partyStep e w session config q sp)) = events w @ rest"
proof (cases "GroupID config = ''''")
  case True
  then show ?thesis by (simp add: partyStep_def)
next
  case False
  obtain ph err w1 where j: "joinPartyGroup e w (session_UserID session) (session_ID session)
                (session_Username session) (node session) (GroupID config) = ((ph, err), w1)"
    by (metis surj_pair)
  from events_joinPartyGroup[of e w "session_UserID session" "session_ID session"
                "session_Username session" "node session" "GroupID config"] j
  obtain rest where "events w1 = events w @ rest" by auto
  with False j show ?thesis by (simp add: partyStep_def)
qed

lemma events_submitTicket:
  "\<exists>rest. events (snd (submitTicket e w session gconfig pid q sp np)) = events w @ rest"
  by (simp add: submitTicket_def Let_def events_emit split: option.splits sum.splits)

lemma PingEndpoints_empty: "PingEndpoints e w session [] = (Inr [], w)"
  by (simp add: PingEndpoints_def)

lemma MatchMake_no_broadcasters:
  assumes "broadcasters w = []"
  shows "\<exists>rest. events (snd (MatchMake e w session)) = events w @ ev_BuildQuery [] # rest"
proof -
  let ?w2 = "emit [ev_BuildQuery []] w"
  have base: "events ?w2 = events w @ [ev_BuildQuery []]" by (simp add: events_emit)
  show ?thesis
  proof (cases "BuildQuery e []")
    case (Inl err)
    with assms show ?thesis by (simp add: MatchMake_def PingEndpoints_empty events_emit)
  next
    case (Inr r)
    obtain query sp np where r: "r = (query, sp, np)" by (cases r) auto
    let ?w3 = "emit [ev_LoadMatchmakingSettings SystemUserID] ?w2"
    show ?thesis
    proof (cases "LoadMatchmakingSettings e SystemUserID")
      case (Inl err)
      with assms Inr r show ?thesis by (simp add: MatchMake_def PingEndpoints_empty events_emit)
    next
      case g: (Inr gconfig)
      let ?w4 = "emit [ev_LoadMatchmakingSettings (session_UserID session)] ?w3"
      show ?thesis
      proof (cases "LoadMatchmakingSettings e (session_UserID session)")
        case (Inl err)
        with assms Inr r g show ?thesis by (simp add: MatchMake_def PingEndpoints_empty events_emit)
      next
        case c: (Inr config)
        let ?q = "query @ '' '' @ QueryAddon gconfig @ '' '' @ QueryAddon config"
        obtain pid q' sp' w5 where p: "partyStep e ?w4 session config ?q sp = ((pid, q', sp'), w5)"
          by (metis surj_pair)
        from events_partyStep[of e ?w4 session config ?q sp] p
        obtain r1 where r1: "events w5 = events ?w4 @ r1" by auto
        from events_submitTicket[of e w5 session gconfig pid q' sp' np]
        obtain r2 where r2: "events (snd (submitTicket e w5 session gconfig pid q' sp' np)) = events w5 @ r2"
          by auto
        have "MatchMake e w session = submitTicket e w5 session gconfig pid q' sp' np"
          using assms Inr r g c p by (simp add: MatchMake_def PingEndpoints_empty)
        with r1 r2 show ?thesis by (simp add: events_emit)
      qed
    qed
  qed
qed

text \<open>
  C9. When the lobby type of the matchmaking session's label is not the public one,
  \<open>Backfill\<close> returns no candidate, an empty query and an invalid-argument error, and
  calls nothing: no search, no lock.
\<close>

theorem Backfill_private_lobby:
  "LobbyType msessionLabel \<noteq> PublicLobby \<Longrightarrow>
   Backfill e w session msessionLabel =
     ((None, '''', Some (Status InvalidArgument ''Cannot backfill private lobbies'' None)), w)"
  by (simp add: Backfill_def)

theorem Backfill_private_lobby_witness:
  "LobbyType (label_A\<lparr>LobbyType := PrivateLobby\<rparr>) \<noteq> PublicLobby \<and>
   Backfill env_1 world_0 session_1 (label_A\<lparr>LobbyType := PrivateLobby\<rparr>) =
     ((None, '''', Some (Status InvalidArgument ''Cannot backfill private lobbies'' None)), world_0)"
  using Backfill_private_lobby [of "label_A\<lparr>LobbyType := PrivateLobby\<rparr>" env_1 world_0 session_1]
  by simp

text \<open>
  C10. \<open>PingEndpoints\<close> on an empty list of endpoints returns no metrics and no error and
  leaves the state as it was: nothing is sent and nothing is waited for. With no
  broadcaster registered, the first call \<open>MatchMake\<close> makes is the query building, with
  no latency data.
\<close>

theorem PingEndpoints_no_endpoints:
  "PingEndpoints e w session [] = (Inr [], w) \<and>
   (broadcasters w = [] \<longrightarrow>
      (\<exists>rest. events (snd (MatchMake e w session)) = events w @ ev_BuildQuery [] # rest))"
  using PingEndpoints_empty MatchMake_no_broadcasters by blast

theorem PingEndpoints_no_endpoints_witness:
  "broadcasters world_0 = [] \<and>
   PingEndpoints env_1 world_0 session_1 [] = (Inr [], world_0) \<and>
   (\<exists>rest. events (snd (MatchMake env_1 world_0 session_1)) = events world_0 @ ev_BuildQuery [] # rest)"
proof -
  have h: "broadcasters world_0 = []" by (simp add: world_0_def)
  show ?thesis using h PingEndpoints_no_endpoints [of env_1 world_0 session_1] by blast
qed

subsection \<open>Evaluation of the scenario\<close>

lemma id_A: "Endpoint_ID endpoint_A = ''198.51.100.1:6792''"
  by (simp add: Endpoint_ID_def endpoint_A_def string_of_nat.simps)

lemma id_B: "Endpoint_ID endpoint_B = ''198.51.100.2:6792''"
  by (simp add: Endpoint_ID_def endpoint_B_def string_of_nat.simps)

lemma label_of_simps:
  "label_endpoint_ID (label_of name ep n) = Endpoint_ID ep"
  "Size (label_of name ep n) = n"
  "Endpoint (Broadcaster (label_of name ep n)) = ep"
  by (simp_all add: label_of_def broadcaster_of_def label_endpoint_ID_def)

lemma metric_simps:
  "metric_Endpoint (metric ep rtt) = ep"
  "metric_RTT (metric ep rtt) = rtt"
  by (simp_all add: metric_def)

lemma rounded_80_95:
  "roundedRTTs [metric endpoint_A (80 * Millisecond), metric endpoint_B (95 * Millisecond)] =
     [(''198.51.100.1:6792'', 80 * Millisecond), (''198.51.100.2:6792'', 100 * Millisecond)]"
  by (simp add: roundedRTTs_def metric_simps id_A id_B mroundRTT_def math_Round_div_def Millisecond_def)

lemma datas_AB:
  "labelDatas [(''198.51.100.1:6792'', 80 * Millisecond), (''198.51.100.2:6792'', 100 * Millisecond)]
     [label_A, label_B] =
   [\<lparr>data_Id = ''198.51.100.1:6792'', data_Size = 5, data_RTT = 80 * Millisecond\<rparr>,
    \<lparr>data_Id = ''198.51.100.2:6792'', data_Size = 10, data_RTT = 100 * Millisecond\<rparr>]"
  by (simp add: labelDatas_def rtt_of_def label_A_def label_B_def label_of_simps id_A id_B Millisecond_def)

text \<open>
  The threshold branches of the Arena comparator, for every pair: a latency over 90 ms is
  placed before one under it, whatever the populations.
\<close>

lemma RTTweightedPopulationCmp_over_before_under:
  "90 * Millisecond < i \<Longrightarrow> j < 90 * Millisecond \<Longrightarrow>
   RTTweightedPopulationCmp i j p q \<and> \<not> RTTweightedPopulationCmp j i q p"
  by (simp add: RTTweightedPopulationCmp_def)

lemma cmp_BA: "RTTweightedPopulationCmp (100 * Millisecond) (80 * Millisecond) 10 5"
  by (simp add: RTTweightedPopulationCmp_def Millisecond_def)

lemma sort_AB:
  "sortDatas ModeArenaPublic
     [\<lparr>data_Id = ''198.51.100.1:6792'', data_Size = 5, data_RTT = 80 * Millisecond\<rparr>,
      \<lparr>data_Id = ''198.51.100.2:6792'', data_Size = 10, data_RTT = 100 * Millisecond\<rparr>] =
     [\<lparr>data_Id = ''198.51.100.2:6792'', data_Size = 10, data_RTT = 100 * Millisecond\<rparr>,
      \<lparr>data_Id = ''198.51.100.1:6792'', data_Size = 5, data_RTT = 80 * Millisecond\<rparr>]"
  by (simp add: sortDatas_def SliceStable_def insertionSort_def cmp_BA)

lemma rank_AB:
  "rankLabels ModeArenaPublic [metric endpoint_A (80 * Millisecond), metric endpoint_B (95 * Millisecond)]
     [label_A, label_B] = ([label_B, label_A], [100 * Millisecond, 80 * Millisecond])"
  unfolding rankLabels_def rounded_80_95 datas_AB sort_AB
  by (simp add: filteredOf_def label_A_def label_B_def label_of_simps id_A id_B)

lemma uniq_AB: "uniqueEndpoints [label_A, label_B] = [endpoint_A, endpoint_B]"
  by (simp add: uniqueEndpoints_def label_A_def label_B_def label_of_simps id_A id_B)

lemma ping_AB:
  "PingEndpoints env_1 (world_AB a b) session_1 [endpoint_A, endpoint_B] =
     (Inr [metric endpoint_A a, metric endpoint_B b], world_AB a b)"
  by (simp add: PingEndpoints_def env_1_def world_AB_def world_0_def id_A id_B getEndpointLatencies_def)

lemma MatchSort_AB: "MatchSort env_1 (world_AB (80 * Millisecond) (95 * Millisecond)) session_1 ModeArenaPublic [Some label_A, Some label_B]
  = (Inr ([label_B, label_A], [100 * Millisecond, 80 * Millisecond]), world_AB (80 * Millisecond) (95 * Millisecond))"
  by (simp add: MatchSort_def uniq_AB ping_AB rank_AB)


subsection \<open>The filter and the ranking\<close>

lemma map_of_store: "map_of (store k v m) = (map_of m)(k \<mapsto> v)"
  by (induction m) (auto simp: fun_eq_iff)

lemma map_of_fold_store_dom:
  "map_of (fold (\<lambda>r m. store (f r) (g r) m) rs m0) k = Some v \<Longrightarrow>
   map_of m0 k = Some v \<or> (\<exists>r \<in> set rs. f r = k \<and> g r = v)"
proof (induction rs arbitrary: m0)
  case Nil
  then show ?case by simp
next
  case (Cons r rs)
  from Cons.IH[of "store (f r) (g r) m0"] Cons.prems
  have "map_of (store (f r) (g r) m0) k = Some v \<or> (\<exists>r \<in> set rs. f r = k \<and> g r = v)"
    by simp
  then show ?case
    by (auto simp: map_of_store split: if_splits)
qed

lemma roundedRTTs_Some:
  "map_of (roundedRTTs result) k = Some v \<Longrightarrow>
   \<exists>r \<in> set result. Endpoint_ID (metric_Endpoint r) = k \<and> mroundRTT (metric_RTT r) (10 * Millisecond) = v"
  using map_of_fold_store_dom[of "\<lambda>r. Endpoint_ID (metric_Endpoint r)"
      "\<lambda>r. mroundRTT (metric_RTT r) (10 * Millisecond)" result "[]" k v]
  by (simp add: roundedRTTs_def)

lemma set_labelDatas:
  "d \<in> set (labelDatas m labels) \<Longrightarrow>
   \<exists>label \<in> set labels. data_Id d = label_endpoint_ID label \<and> data_Size d = Size label
      \<and> data_RTT d = rtt_of m (label_endpoint_ID label)
      \<and> data_RTT d \<noteq> 0 \<and> data_RTT d \<le> 270 * Millisecond"
  by (auto simp: labelDatas_def Let_def split: if_splits)

lemma set_sortDatas: "set (sortDatas mode datas) = set datas"
  by (cases mode) (simp_all add: sortDatas_def set_SliceStable)

lemma set_filteredOf:
  "(l, rtt) \<in> set (filteredOf labels datas) \<Longrightarrow>
   \<exists>d \<in> set datas. l \<in> set labels \<and> label_endpoint_ID l = data_Id d \<and> rtt = data_RTT d"
proof -
  assume "(l, rtt) \<in> set (filteredOf labels datas)"
  then obtain d where d: "d \<in> set datas"
      "find (\<lambda>label. label_endpoint_ID label = data_Id d) labels = Some l" "rtt = data_RTT d"
    by (auto simp: filteredOf_def split: option.splits)
  from d(2) have "l \<in> set labels" "label_endpoint_ID l = data_Id d"
    by (auto simp: find_Some_iff)
  with d show ?thesis by blast
qed

lemma rankLabels_member:
  assumes "l \<in> set (fst (rankLabels mode result labels))"
  shows "l \<in> set labels \<and>
         rtt_of (roundedRTTs result) (label_endpoint_ID l) \<noteq> 0 \<and>
         rtt_of (roundedRTTs result) (label_endpoint_ID l) \<le> 270 * Millisecond"
proof -
  from assms obtain rtt where
    "(l, rtt) \<in> set (filteredOf labels (sortDatas mode (labelDatas (roundedRTTs result) labels)))"
    by (auto simp: rankLabels_def Let_def)
  then obtain d where d: "d \<in> set (labelDatas (roundedRTTs result) labels)"
      "l \<in> set labels" "label_endpoint_ID l = data_Id d"
    using set_filteredOf set_sortDatas by blast
  from set_labelDatas[OF d(1)] obtain label where
    "data_Id d = label_endpoint_ID label"
    "data_RTT d = rtt_of (roundedRTTs result) (label_endpoint_ID label)"
    "data_RTT d \<noteq> 0" "data_RTT d \<le> 270 * Millisecond"
    by blast
  with d show ?thesis by simp
qed

lemma rtt_of_nonzero:
  "rtt_of (roundedRTTs result) k \<noteq> 0 \<Longrightarrow>
   \<exists>r \<in> set result. Endpoint_ID (metric_Endpoint r) = k \<and>
      mroundRTT (metric_RTT r) (10 * Millisecond) = rtt_of (roundedRTTs result) k"
  using roundedRTTs_Some[of result k]
  by (auto simp: rtt_of_def split: option.splits)


subsection \<open>MatchSort\<close>

lemma ping_A:
  "PingEndpoints env_1 (world_AB a b) session_1 [endpoint_A] =
     (Inr [metric endpoint_A a], world_AB a b)"
  by (simp add: PingEndpoints_def env_1_def world_AB_def world_0_def id_A id_B getEndpointLatencies_def)

lemma MatchSort_single:
  "MatchSort env_1 (world_AB a b) session_1 mode [Some label_A] =
     (Inr (if mroundRTT a (10 * Millisecond) = 0 \<or> mroundRTT a (10 * Millisecond) > 270 * Millisecond
           then ([], []) else ([label_A], [mroundRTT a (10 * Millisecond)])), world_AB a b)"
proof -
  have u: "uniqueEndpoints [label_A] = [endpoint_A]"
    by (simp add: uniqueEndpoints_def label_A_def label_of_simps)
  have r: "roundedRTTs [metric endpoint_A a] = [(Endpoint_ID endpoint_A, mroundRTT a (10 * Millisecond))]"
    by (simp add: roundedRTTs_def metric_simps)
  have s: "sortDatas mode [d] = [d]" "sortDatas mode [] = []" for d
    by (cases mode; simp add: sortDatas_def SliceStable_def insertionSort_def)+
  have "rankLabels mode [metric endpoint_A a] [label_A] =
      (if mroundRTT a (10 * Millisecond) = 0 \<or> mroundRTT a (10 * Millisecond) > 270 * Millisecond
           then ([], []) else ([label_A], [mroundRTT a (10 * Millisecond)]))"
    unfolding rankLabels_def r
    by (simp add: labelDatas_def rtt_of_def label_A_def label_of_simps s filteredOf_def)
  then show ?thesis
    by (simp add: MatchSort_def u ping_A)
qed

lemma round_270: "mroundRTT (270 * Millisecond) (10 * Millisecond) = 270 * Millisecond"
  by (simp add: mroundRTT_def math_Round_div_def Millisecond_def)

lemma round_271: "mroundRTT (271 * Millisecond) (10 * Millisecond) = 270 * Millisecond"
  by (simp add: mroundRTT_def math_Round_div_def Millisecond_def)

text \<open>
  C1 (the code at the claim's own example). In the Arena mode, with candidate A measured
  at 80 ms with population 5 and candidate B measured at 95 ms (the 100 ms bucket) with
  population 10, the comparator places B, over the 90 ms threshold, before A, under it,
  and not A before B; \<open>MatchSort\<close> returns \<open>[B, A]\<close>, where the claim says \<open>[A, B]\<close>.
\<close>

theorem MatchSort_arena_over_threshold_first:
  "RTTweightedPopulationCmp (100 * Millisecond) (80 * Millisecond) 10 5 \<and>
   \<not> RTTweightedPopulationCmp (80 * Millisecond) (100 * Millisecond) 5 10 \<and>
   fst (MatchSort env_1 (world_AB (80 * Millisecond) (95 * Millisecond)) session_1 ModeArenaPublic
          [Some label_A, Some label_B]) =
     Inr ([label_B, label_A], [100 * Millisecond, 80 * Millisecond])"
  by (simp add: MatchSort_AB cmp_BA) (simp add: RTTweightedPopulationCmp_def Millisecond_def)

text \<open>
  C4, as amended. Every candidate in the output of \<open>MatchSort\<close> has a latency measurement
  for its endpoint among the probe's results, and that latency, rounded to the nearest
  10 ms, is neither zero nor above 270 ms. The ceiling applies to the rounded latency, so
  a candidate measured at 270 ms is kept and so is one measured at 271 ms.
\<close>

theorem MatchSort_latency_ceiling:
  assumes "MatchSort e w session mode labels = (Inr (filtered, rtts), w')" and "l \<in> set filtered"
  shows "\<exists>result. PingEndpoints e w session (uniqueEndpoints (map the labels)) = (Inr result, w') \<and>
           (\<exists>r \<in> set result. Endpoint_ID (metric_Endpoint r) = label_endpoint_ID l \<and>
              mroundRTT (metric_RTT r) (10 * Millisecond) \<noteq> 0 \<and>
              mroundRTT (metric_RTT r) (10 * Millisecond) \<le> 270 * Millisecond)"
proof -
  from assms have ne: "labels \<noteq> []" "None \<notin> set labels"
    by (auto simp: MatchSort_def split: if_splits)
  let ?ls = "map the labels"
  obtain res w1 where p: "PingEndpoints e w session (uniqueEndpoints ?ls) = (res, w1)"
    by (metis surj_pair)
  with assms(1) ne obtain result where r: "res = Inr result" "w1 = w'"
      "(filtered, rtts) = rankLabels mode result ?ls"
    by (cases res) (auto simp: MatchSort_def Let_def)
  from r(3) assms(2) have "l \<in> set (fst (rankLabels mode result ?ls))"
    by (metis fst_conv)
  from rankLabels_member[OF this]
  have nz: "rtt_of (roundedRTTs result) (label_endpoint_ID l) \<noteq> 0"
    and le: "rtt_of (roundedRTTs result) (label_endpoint_ID l) \<le> 270 * Millisecond"
    by simp_all
  from rtt_of_nonzero[OF nz] le nz p r show ?thesis by auto
qed


theorem MatchSort_latency_ceiling_witness:
  "MatchSort env_1 (world_AB (270 * Millisecond) (95 * Millisecond)) session_1 ModeArenaPublic [Some label_A] =
     (Inr ([label_A], [270 * Millisecond]), world_AB (270 * Millisecond) (95 * Millisecond)) \<and>
   label_A \<in> set [label_A] \<and>
   (\<exists>result. PingEndpoints env_1 (world_AB (270 * Millisecond) (95 * Millisecond)) session_1
                (uniqueEndpoints (map the [Some label_A])) =
                (Inr result, world_AB (270 * Millisecond) (95 * Millisecond)) \<and>
      (\<exists>r \<in> set result. Endpoint_ID (metric_Endpoint r) = label_endpoint_ID label_A \<and>
         mroundRTT (metric_RTT r) (10 * Millisecond) \<noteq> 0 \<and>
         mroundRTT (metric_RTT r) (10 * Millisecond) \<le> 270 * Millisecond))"
proof -
  have h1: "MatchSort env_1 (world_AB (270 * Millisecond) (95 * Millisecond)) session_1 ModeArenaPublic
      [Some label_A] = (Inr ([label_A], [270 * Millisecond]), world_AB (270 * Millisecond) (95 * Millisecond))"
    by (simp add: MatchSort_single round_270) (simp add: Millisecond_def)
  have h2: "label_A \<in> set [label_A]" by simp
  from MatchSort_latency_ceiling [OF h1 h2] h1 h2 show ?thesis by blast
qed

text \<open>
  C4 as stated fails: a candidate whose endpoint was measured at 271 ms, above the 270 ms
  ceiling, is in the output, with the latency of its bucket.
\<close>

theorem MatchSort_keeps_271ms:
  "270 * Millisecond < 271 * Millisecond \<and>
   fst (MatchSort env_1 (world_AB (271 * Millisecond) (95 * Millisecond)) session_1 ModeArenaPublic
          [Some label_A]) = Inr ([label_A], [270 * Millisecond])"
  by (simp add: MatchSort_single round_271) (simp add: Millisecond_def)

subsection \<open>PingEndpoints\<close>

lemma PingEndpoints_sent:
  assumes "endpoints \<noteq> []"
    and "GetPingCandidates e (LatencyCache w) endpoints \<noteq> []"
    and "SendEvr session [LobbyPingRequest 275 (GetPingCandidates e (LatencyCache w) endpoints),
                          STcpConnectionUnrequireEvent] = None"
  shows "PingEndpoints e w session endpoints =
     (let w2 = emit [ev_SendEvr [LobbyPingRequest 275 (GetPingCandidates e (LatencyCache w) endpoints),
                                 STcpConnectionUnrequireEvent]]
                 (w\<lparr>broadcasters := UpdateBroadcasters e endpoints (broadcasters w)\<rparr>)
      in case select_wait e of
           CaseDone \<Rightarrow> (Inl ErrMatchmakingCanceled, w2)
         | CaseTimer \<Rightarrow> (Inl ErrMatchmakingPingTimeout, w2)
         | CaseResults \<Rightarrow>
             (let results = (case results_at e of None \<Rightarrow> [] | Some (t, rs) \<Rightarrow> rs);
                  w3 = w2\<lparr>LatencyCache := storeResults e (broadcasters w2) 0 results (LatencyCache w2)\<rparr>
              in (Inr (getEndpointLatencies e w3 endpoints), w3)))"
  using assms by (simp add: PingEndpoints_def sendPingRequest_def Let_def)

lemma emit_fields:
  "LatencyCache (emit evs w) = LatencyCache w"
  "broadcasters (emit evs w) = broadcasters w"
  by (simp_all add: emit_def)

lemma select_wait_done:
  "ctx_done_at e = Some t \<Longrightarrow> t < 5 * Second \<Longrightarrow> results_after e (max 0 t) \<Longrightarrow>
   select_wait e = CaseDone"
  by (auto simp: select_wait_def select_ready_def results_after_def PingWait_def ready_at_def
      Second_def Millisecond_def Let_def min_def max_def split: option.splits)

lemma select_wait_timer:
  "ctx_done_after e (5 * Second) \<Longrightarrow> results_after e (5 * Second) \<Longrightarrow> select_wait e = CaseTimer"
  by (auto simp: select_wait_def select_ready_def results_after_def ctx_done_after_def PingWait_def
      ready_at_def Second_def Millisecond_def Let_def min_def max_def split: option.splits)

lemma env_cancel_simps:
  "GetPingCandidates env_cancel [] [endpoint_A] = [endpoint_A]"
  "ctx_done_at env_cancel = Some (1 * Second)"
  "results_after env_cancel t"
  by (simp_all add: env_cancel_def env_1_def results_after_def)

lemma env_cancelled_before_simps:
  "GetPingCandidates env_cancelled_before [] [endpoint_A] = [endpoint_A]"
  "ctx_done_at env_cancelled_before = Some (- 2 * Second)"
  "results_after env_cancelled_before t"
  by (simp_all add: env_cancelled_before_def env_1_def results_after_def)

lemma env_1_simps:
  "GetPingCandidates env_1 [] [endpoint_A] = [endpoint_A]"
  "ctx_done_after env_1 t"
  "results_after env_1 t"
  by (simp_all add: env_1_def results_after_def ctx_done_after_def)

lemma session_1_send: "SendEvr session_1 msgs = None"
  by (simp add: session_1_def)

text \<open>
  C7. After a probe request is sent, \<open>PingEndpoints\<close> waits. If the context is cancelled
  before five seconds of the wait have passed, the results not having arrived by then (by
  the start of the wait, when the context was cancelled before it), it returns the
  cancellation error; if five seconds pass with the context not cancelled and no results,
  it returns the timeout error. In both cases the latency cache is as it was.
\<close>

theorem PingEndpoints_wait_abandoned:
  assumes "endpoints \<noteq> []"
    and "GetPingCandidates e (LatencyCache w) endpoints \<noteq> []"
    and "SendEvr session [LobbyPingRequest 275 (GetPingCandidates e (LatencyCache w) endpoints),
                          STcpConnectionUnrequireEvent] = None"
  shows "(ctx_done_at e = Some t \<and> t < 5 * Second \<and> results_after e (max 0 t) \<longrightarrow>
            fst (PingEndpoints e w session endpoints) = Inl ErrMatchmakingCanceled \<and>
            LatencyCache (snd (PingEndpoints e w session endpoints)) = LatencyCache w) \<and>
         (ctx_done_after e (5 * Second) \<and> results_after e (5 * Second) \<longrightarrow>
            fst (PingEndpoints e w session endpoints) = Inl ErrMatchmakingPingTimeout \<and>
            LatencyCache (snd (PingEndpoints e w session endpoints)) = LatencyCache w)"
proof (intro conjI impI)
  assume a: "ctx_done_at e = Some t \<and> t < 5 * Second \<and> results_after e (max 0 t)"
  then have "select_wait e = CaseDone" by (simp add: select_wait_done)
  then show "fst (PingEndpoints e w session endpoints) = Inl ErrMatchmakingCanceled"
    and "LatencyCache (snd (PingEndpoints e w session endpoints)) = LatencyCache w"
    by (simp_all add: PingEndpoints_sent[OF assms] emit_fields)
next
  assume a: "ctx_done_after e (5 * Second) \<and> results_after e (5 * Second)"
  then have "select_wait e = CaseTimer" by (simp add: select_wait_timer)
  then show "fst (PingEndpoints e w session endpoints) = Inl ErrMatchmakingPingTimeout"
    and "LatencyCache (snd (PingEndpoints e w session endpoints)) = LatencyCache w"
    by (simp_all add: PingEndpoints_sent[OF assms] emit_fields)
qed

theorem PingEndpoints_wait_abandoned_witness:
  "[endpoint_A] \<noteq> [] \<and>
   GetPingCandidates env_cancel (LatencyCache world_0) [endpoint_A] \<noteq> [] \<and>
   GetPingCandidates env_cancelled_before (LatencyCache world_0) [endpoint_A] \<noteq> [] \<and>
   GetPingCandidates env_1 (LatencyCache world_0) [endpoint_A] \<noteq> [] \<and>
   SendEvr session_1 [LobbyPingRequest 275 (GetPingCandidates env_cancel (LatencyCache world_0) [endpoint_A]),
                      STcpConnectionUnrequireEvent] = None \<and>
   SendEvr session_1 [LobbyPingRequest 275 (GetPingCandidates env_cancelled_before (LatencyCache world_0) [endpoint_A]),
                      STcpConnectionUnrequireEvent] = None \<and>
   SendEvr session_1 [LobbyPingRequest 275 (GetPingCandidates env_1 (LatencyCache world_0) [endpoint_A]),
                      STcpConnectionUnrequireEvent] = None \<and>
   ctx_done_at env_cancel = Some (1 * Second) \<and> 1 * Second < 5 * Second \<and>
   results_after env_cancel (max 0 (1 * Second)) \<and>
   fst (PingEndpoints env_cancel world_0 session_1 [endpoint_A]) = Inl ErrMatchmakingCanceled \<and>
   LatencyCache (snd (PingEndpoints env_cancel world_0 session_1 [endpoint_A])) = LatencyCache world_0 \<and>
   ctx_done_at env_cancelled_before = Some (- 2 * Second) \<and> - 2 * Second < 5 * Second \<and>
   results_after env_cancelled_before (max 0 (- 2 * Second)) \<and>
   fst (PingEndpoints env_cancelled_before world_0 session_1 [endpoint_A]) = Inl ErrMatchmakingCanceled \<and>
   ctx_done_after env_1 (5 * Second) \<and> results_after env_1 (5 * Second) \<and>
   fst (PingEndpoints env_1 world_0 session_1 [endpoint_A]) = Inl ErrMatchmakingPingTimeout \<and>
   LatencyCache (snd (PingEndpoints env_1 world_0 session_1 [endpoint_A])) = LatencyCache world_0"
proof -
  have c: "LatencyCache world_0 = []" by (simp add: world_0_def)
  have h1: "[endpoint_A] \<noteq> []" by simp
  have h2: "GetPingCandidates env_cancel (LatencyCache world_0) [endpoint_A] \<noteq> []"
    by (simp add: c env_cancel_simps)
  have h2b: "GetPingCandidates env_cancelled_before (LatencyCache world_0) [endpoint_A] \<noteq> []"
    by (simp add: c env_cancelled_before_simps)
  have h2': "GetPingCandidates env_1 (LatencyCache world_0) [endpoint_A] \<noteq> []"
    by (simp add: c env_1_simps)
  have h3: "SendEvr session_1 [LobbyPingRequest 275 (GetPingCandidates env_cancel (LatencyCache world_0) [endpoint_A]),
                      STcpConnectionUnrequireEvent] = None"
    by (rule session_1_send)
  have h3b: "SendEvr session_1 [LobbyPingRequest 275 (GetPingCandidates env_cancelled_before (LatencyCache world_0) [endpoint_A]),
                      STcpConnectionUnrequireEvent] = None"
    by (rule session_1_send)
  have h3': "SendEvr session_1 [LobbyPingRequest 275 (GetPingCandidates env_1 (LatencyCache world_0) [endpoint_A]),
                      STcpConnectionUnrequireEvent] = None"
    by (rule session_1_send)
  have t: "1 * Second < 5 * Second" "- 2 * Second < 5 * Second"
    by (simp_all add: Second_def Millisecond_def)
  from PingEndpoints_wait_abandoned [OF h1 h2 h3, of "1 * Second"]
       PingEndpoints_wait_abandoned [OF h1 h2b h3b, of "- 2 * Second"]
       PingEndpoints_wait_abandoned [OF h1 h2' h3', of 0]
       h2 h2b h2' h3 h3b h3' t env_cancel_simps(2,3) env_cancelled_before_simps(2,3) env_1_simps(2,3)
  show ?thesis by blast
qed


















subsection \<open>Backfill\<close>

lemma parts_spectator:
  "matchQueryParts label_spectator =
     Inr [Query OpenLobbyQ Must 0, Query (LobbyTypeQ PublicLobby) Must 0,
          Query (GameModeQ ModeArenaPublic) Must 0,
          Query (MatchIdQ (UUID ''match-own'')) MustNot 0,
          Query (ChannelsQ [UUID ''guild-1'']) Must 0,
          Query (ChannelQ (UUID ''guild-1'')) Should 3]"
  by (simp add: matchQueryParts_def label_spectator_def label_of_def broadcaster_of_def)

lemma env_backfill_simps:
  "QueryOf env_backfill = example_Query"
  "MatchMaxSize env_backfill = 16"
  "MatchList env_backfill limit minSize maxSize query = Inr [\<lparr>match_Label = ''B-listed'', match_Size = 11\<rparr>]"
  "Unmarshal env_backfill ''B-listed'' into = Some label_B"
  "Unmarshal env_backfill ''B-live'' into = Some label_B_live"
  "GetMatch env_backfill (UUID ''match-B'') = (Some \<lparr>match_Label = ''B-live'', match_Size = 16\<rparr>, None)"
  "GetPingCandidates env_backfill = GetPingCandidates env_1"
  "GetLatencies env_backfill = GetLatencies env_1"
  "UpdateBroadcasters env_backfill = UpdateBroadcasters env_1"
  by (simp_all add: env_backfill_def env_1_def)

lemma query_spectator:
  "buildMatchQueryFromLabel env_backfill label_spectator = Inr query_spectator"
  by (simp add: buildMatchQueryFromLabel_def parts_spectator env_backfill_simps example_Query_def
      string_of_int_def string_of_nat.simps query_spectator_def)

lemma search_spectator:
  "MatchSearch env_backfill w label_spectator =
     (Inr ([Some label_B], query_spectator), emit [ev_MatchList 50 1 15 query_spectator] w)"
  by (simp add: MatchSearch_def query_spectator listMatches_def env_backfill_simps)

lemma ping_B:
  "PingEndpoints env_backfill (emit evs (world_AB a b)) session_1 [endpoint_B] =
     (Inr [metric endpoint_B b], emit evs (world_AB a b))"
  by (simp add: PingEndpoints_def env_backfill_simps env_1_def world_AB_def world_0_def emit_def
      id_A id_B getEndpointLatencies_def)

lemma round_40: "mroundRTT (40 * Millisecond) (10 * Millisecond) = 40 * Millisecond"
  by (simp add: mroundRTT_def math_Round_div_def Millisecond_def)

lemma sort_B:
  "MatchSort env_backfill (emit evs (world_AB a (40 * Millisecond))) session_1 mode [Some label_B] =
     (Inr ([label_B], [40 * Millisecond]), emit evs (world_AB a (40 * Millisecond)))"
proof -
  have u: "uniqueEndpoints [label_B] = [endpoint_B]"
    by (simp add: uniqueEndpoints_def label_B_def label_of_simps)
  have r: "roundedRTTs [metric endpoint_B (40 * Millisecond)] = [(Endpoint_ID endpoint_B, 40 * Millisecond)]"
    by (simp add: roundedRTTs_def metric_simps round_40)
  have s: "sortDatas mode [d] = [d]" for d
    by (cases mode; simp add: sortDatas_def SliceStable_def insertionSort_def)
  have "rankLabels mode [metric endpoint_B (40 * Millisecond)] [label_B] = ([label_B], [40 * Millisecond])"
    unfolding rankLabels_def r
    by (simp add: labelDatas_def rtt_of_def label_B_def label_of_simps s filteredOf_def Millisecond_def)
  then show ?thesis
    by (simp add: MatchSort_def u ping_B)
qed

lemma label_B_live_simps:
  "MaxSize label_B_live = 15" "TeamSize label_B_live = 4" "length (Players label_B_live) = 15"
  "EvrMatchState_ID label_B = UUID ''match-B''"
  by (simp_all add: label_B_live_def label_B_def label_of_def EvrMatchState_ID_def)

lemma select_spectator:
  "selectBackfill env_backfill Spectator [label_B] [] =
     (Some label_B_live,
      [ev_MutexLock (UUID ''match-B''), ev_GetMatch (UUID ''match-B''),
       ev_MutexUnlockAfter MatchJoinGracePeriod (UUID ''match-B'')])"
  by (simp add: env_backfill_simps label_B_live_simps Let_def)

lemma label_spectator_simps:
  "LobbyType label_spectator = PublicLobby" "Mode label_spectator = ModeArenaPublic"
  "TeamIndex label_spectator = Spectator"
  by (simp_all add: label_spectator_def label_of_def)

text \<open>
  C2 (the code at a session that is full). A spectator asks for a backfill. The one
  candidate was listed with free places; fetched again under its lock, the match has 16
  presences and its label a maximum of 15, so the size meets the maximum plus the
  broadcaster's place. The check passes only a size above that, and \<open>Backfill\<close> selects
  the full session.
\<close>

theorem Backfill_selects_full_session:
  "GetMatch env_backfill (EvrMatchState_ID label_B) =
     (Some \<lparr>match_Label = ''B-live'', match_Size = 16\<rparr>, None) \<and>
   Unmarshal env_backfill ''B-live'' (Some label_B) = Some label_B_live \<and>
   MaxSize label_B_live + 1 = 16 \<and>
   fst (fst (Backfill env_backfill (world_AB (80 * Millisecond) (40 * Millisecond)) session_1
               label_spectator)) = Some label_B_live"
  by (simp add: Backfill_def label_spectator_simps search_spectator sort_B select_spectator
      env_backfill_simps label_B_live_simps del: selectBackfill.simps)


subsection \<open>The match query\<close>

lemma Join_member:
  "x \<in> set xs \<Longrightarrow> \<exists>pre post. Join xs sep = pre @ x @ post"
proof (induction xs sep rule: Join.induct)
  case (1 sep)
  then show ?case by simp
next
  case (2 y sep)
  then have "Join [y] sep = [] @ x @ []" by simp
  then show ?case by blast
next
  case (3 y z xs sep)
  show ?case
  proof (cases "x = y")
    case True
    then have "Join (y # z # xs) sep = [] @ x @ (sep @ Join (z # xs) sep)" by simp
    then show ?thesis by blast
  next
    case False
    with 3 obtain pre post where "Join (z # xs) sep = pre @ x @ post" by auto
    then have "Join (y # z # xs) sep = (y @ sep @ pre) @ x @ post" by simp
    then show ?thesis by blast
  qed
qed

lemma label_A_simps:
  "TeamIndex label_A = OtherTeam 0" "Channels (Broadcaster label_A) = [UUID ''guild-1'']"
  "Channel label_A = Some (UUID ''guild-1'')" "MatchID label_A = UUID ''match-A''"
  by (simp_all add: label_A_def label_of_def broadcaster_of_def)

text \<open>
  C8, as amended. For a desired label that is neither a spectator's nor a moderator's, with
  a populated list of channels and a current-channel pointer that is set, the query is
  built, and it contains the \<open>Must\<close> predicate over those channels. When the label's match
  id is not the nil identifier, it contains the \<open>MustNot\<close> predicate on that match id;
  when it is nil, the query has no \<open>MustNot\<close> predicate at all.
\<close>

theorem buildMatchQueryFromLabel_scope_and_own_match:
  assumes "TeamIndex ml \<noteq> Spectator" and "TeamIndex ml \<noteq> Moderator"
    and "Channels (Broadcaster ml) \<noteq> []" and "Channel ml = Some channel"
  shows "\<exists>qparts query.
           matchQueryParts ml = Inr qparts \<and>
           buildMatchQueryFromLabel e ml = Inr query \<and>
           query = Join (map (render e) qparts) '' '' \<and>
           Query (ChannelsQ (Channels (Broadcaster ml))) Must 0 \<in> set qparts \<and>
           (\<exists>pre post. query = pre @ QueryOf e (ChannelsQ (Channels (Broadcaster ml))) Must 0 @ post) \<and>
           (MatchID ml \<noteq> uuid_Nil \<longrightarrow>
              Query (MatchIdQ (MatchID ml)) MustNot 0 \<in> set qparts \<and>
              (\<exists>pre post. query = pre @ QueryOf e (MatchIdQ (MatchID ml)) MustNot 0 @ post)) \<and>
           (MatchID ml = uuid_Nil \<longrightarrow> (\<forall>t boost. Query t MustNot boost \<notin> set qparts))"
proof -
  obtain qparts where q: "matchQueryParts ml = Inr qparts"
    using assms(4) by (simp add: matchQueryParts_def Let_def)
  have c: "Query (ChannelsQ (Channels (Broadcaster ml))) Must 0 \<in> set qparts"
    using q assms by (auto simp: matchQueryParts_def Let_def split: if_splits)
  have m: "MatchID ml \<noteq> uuid_Nil \<Longrightarrow> Query (MatchIdQ (MatchID ml)) MustNot 0 \<in> set qparts"
    using q assms by (auto simp: matchQueryParts_def Let_def split: if_splits)
  have n: "MatchID ml = uuid_Nil \<Longrightarrow> Query t MustNot boost \<notin> set qparts" for t boost
    using q assms by (auto simp: matchQueryParts_def Let_def split: if_splits)
  let ?query = "Join (map (render e) qparts) '' ''"
  have b: "buildMatchQueryFromLabel e ml = Inr ?query"
    by (simp add: buildMatchQueryFromLabel_def q)
  have r: "p \<in> set qparts \<Longrightarrow> \<exists>pre post. ?query = pre @ render e p @ post" for p
    by (rule Join_member) simp
  from r[OF c] have c': "\<exists>pre post. ?query = pre @ QueryOf e (ChannelsQ (Channels (Broadcaster ml))) Must 0 @ post"
    by simp
  have m': "MatchID ml \<noteq> uuid_Nil \<Longrightarrow>
      \<exists>pre post. ?query = pre @ QueryOf e (MatchIdQ (MatchID ml)) MustNot 0 @ post"
    using r[OF m] by simp
  from q b c c' m m' n show ?thesis by blast
qed

theorem buildMatchQueryFromLabel_scope_and_own_match_witness:
  "TeamIndex label_A \<noteq> Spectator \<and> TeamIndex label_A \<noteq> Moderator \<and>
   Channels (Broadcaster label_A) \<noteq> [] \<and> Channel label_A = Some (UUID ''guild-1'') \<and>
   MatchID label_A \<noteq> uuid_Nil \<and>
   (\<exists>qparts query.
      matchQueryParts label_A = Inr qparts \<and>
      buildMatchQueryFromLabel env_1 label_A = Inr query \<and>
      Query (ChannelsQ (Channels (Broadcaster label_A))) Must 0 \<in> set qparts \<and>
      Query (MatchIdQ (MatchID label_A)) MustNot 0 \<in> set qparts \<and>
      (\<exists>pre post. query = pre @ QueryOf env_1 (MatchIdQ (MatchID label_A)) MustNot 0 @ post)) \<and>
   MatchID (label_A\<lparr>MatchID := uuid_Nil\<rparr>) = uuid_Nil \<and>
   (\<exists>qparts.
      matchQueryParts (label_A\<lparr>MatchID := uuid_Nil\<rparr>) = Inr qparts \<and>
      Query (ChannelsQ (Channels (Broadcaster label_A))) Must 0 \<in> set qparts \<and>
      (\<forall>t boost. Query t MustNot boost \<notin> set qparts))"
proof -
  let ?l = "label_A\<lparr>MatchID := uuid_Nil\<rparr>"
  have h1: "TeamIndex label_A \<noteq> Spectator" and h2: "TeamIndex label_A \<noteq> Moderator"
    and h3: "Channels (Broadcaster label_A) \<noteq> []" and h4: "Channel label_A = Some (UUID ''guild-1'')"
    and h5: "MatchID label_A \<noteq> uuid_Nil"
    by (simp_all add: label_A_simps)
  have g1: "TeamIndex ?l \<noteq> Spectator" and g2: "TeamIndex ?l \<noteq> Moderator"
    and g3: "Channels (Broadcaster ?l) \<noteq> []" and g4: "Channel ?l = Some (UUID ''guild-1'')"
    and g5: "MatchID ?l = uuid_Nil" and g6: "Broadcaster ?l = Broadcaster label_A"
    by (simp_all add: label_A_simps)
  from buildMatchQueryFromLabel_scope_and_own_match [OF h1 h2 h3 h4, of env_1] h5
  have a: "\<exists>qparts query.
      matchQueryParts label_A = Inr qparts \<and>
      buildMatchQueryFromLabel env_1 label_A = Inr query \<and>
      Query (ChannelsQ (Channels (Broadcaster label_A))) Must 0 \<in> set qparts \<and>
      Query (MatchIdQ (MatchID label_A)) MustNot 0 \<in> set qparts \<and>
      (\<exists>pre post. query = pre @ QueryOf env_1 (MatchIdQ (MatchID label_A)) MustNot 0 @ post)"
    by blast
  from buildMatchQueryFromLabel_scope_and_own_match [OF g1 g2 g3 g4, of env_1] g5 g6
  have b: "\<exists>qparts.
      matchQueryParts ?l = Inr qparts \<and>
      Query (ChannelsQ (Channels (Broadcaster label_A))) Must 0 \<in> set qparts \<and>
      (\<forall>t boost. Query t MustNot boost \<notin> set qparts)"
    by (metis (no_types, lifting))
  from a b h1 h2 h3 h4 h5 g5 show ?thesis by blast
qed

text \<open>
  C8 as stated fails: the label of a player who is in no match (a nil match id) gives a
  query with the channels' predicate and no \<open>MustNot\<close> predicate.
\<close>

theorem buildMatchQueryFromLabel_without_own_match:
  "TeamIndex (label_A\<lparr>MatchID := uuid_Nil\<rparr>) \<noteq> Spectator \<and>
   TeamIndex (label_A\<lparr>MatchID := uuid_Nil\<rparr>) \<noteq> Moderator \<and>
   Channels (Broadcaster (label_A\<lparr>MatchID := uuid_Nil\<rparr>)) \<noteq> [] \<and>
   matchQueryParts (label_A\<lparr>MatchID := uuid_Nil\<rparr>) =
     Inr [Query OpenLobbyQ Must 0, Query (LobbyTypeQ PublicLobby) Must 0,
          Query (GameModeQ ModeArenaPublic) Must 0, Raw ''+label.size:<=5'',
          Query (ChannelsQ [UUID ''guild-1'']) Must 0,
          Query (ChannelQ (UUID ''guild-1'')) Should 3] \<and>
   buildMatchQueryFromLabel env_1 (label_A\<lparr>MatchID := uuid_Nil\<rparr>) =
     Inr ''+label.open +label.lobby_type +label.mode +label.size:<=5 +label.broadcaster.channels label.channel^3''"
proof -
  have p: "matchQueryParts (label_A\<lparr>MatchID := uuid_Nil\<rparr>) =
     Inr [Query OpenLobbyQ Must 0, Query (LobbyTypeQ PublicLobby) Must 0,
          Query (GameModeQ ModeArenaPublic) Must 0, Raw ''+label.size:<=5'',
          Query (ChannelsQ [UUID ''guild-1'']) Must 0,
          Query (ChannelQ (UUID ''guild-1'')) Should 3]"
    by (simp add: matchQueryParts_def label_A_def label_of_def broadcaster_of_def string_of_int_def
        string_of_nat.simps)
  have "QueryOf env_1 = example_Query" by (simp add: env_1_def)
  then have "buildMatchQueryFromLabel env_1 (label_A\<lparr>MatchID := uuid_Nil\<rparr>) =
     Inr ''+label.open +label.lobby_type +label.mode +label.size:<=5 +label.broadcaster.channels label.channel^3''"
    by (simp add: buildMatchQueryFromLabel_def p example_Query_def string_of_int_def string_of_nat.simps)
  with p show ?thesis by (simp add: label_A_simps)
qed


subsection \<open>Parties\<close>

lemma env_party_simps:
  "LoadMatchmakingSettings env_party SystemUserID = Inr settings_1"
  "LoadMatchmakingSettings env_party ''user-1'' = Inr (settings_1\<lparr>GroupID := ''group-1''\<rparr>)"
  "BuildQuery env_party rtts = Inr (''+label.open:T'', [], [])"
  "ctxEvrID env_party = Some ''OVR-ORG-1''"
  "TrackMulti env_party sid q = True"
  "MatchmakerAdd env_party sid pid q = Inr ''ticket-1''"
  by (simp_all add: env_party_def env_1_def SystemUserID_def)

lemma session_1_simps:
  "session_ID session_1 = ''session-1''" "session_UserID session_1 = ''user-1''"
  "session_Username session_1 = ''player''" "node session_1 = ''node1''"
  by (simp_all add: session_1_def)

lemma settings_1_simps:
  "QueryAddon settings_1 = []" "GroupID settings_1 = []" "MinCount settings_1 = 2"
  "MaxCount settings_1 = 8" "CountMultiple settings_1 = 2"
  by (simp_all add: settings_1_def)

lemma world_party_simps:
  "broadcasters (world_party ph) = []" "parties (world_party ph) = [(NewV5 ''group-1'', ph)]"
  "events (world_party ph) = []"
  by (simp_all add: world_party_def world_0_def)

lemma party_full_simps:
  "\<not> int (length (party_members party_full)) < party_maxSize party_full"
  "party_ID party_full = NewV5 ''group-1''"
  by (simp_all add: party_full_def)

lemma emit_parties: "parties (emit evs w) = parties w"
  by (simp add: emit_def)

lemma join_full:
  "parties w = [(NewV5 ''group-1'', party_full)] \<Longrightarrow>
   joinPartyGroup e w u s n nd ''group-1'' =
     ((party_full, Some (Status ResourceExhausted ''Party is full'' None)),
      emit [ev_CustomCounter ''partyregistry_error_party_full''] w)"
  by (simp add: joinPartyGroup_def party_full_simps)

lemma MatchMake_full_party:
  "MatchMake env_party (world_party party_full) session_1 =
     (Inr ''ticket-1'',
      (world_party party_full)
        \<lparr>Party := Some party_full,
         tickets := [(''ticket-1'', ''+label.open:T   properties.party_group:group-1^5'')],
         events :=
           [ev_BuildQuery [],
            ev_LoadMatchmakingSettings SystemUserID,
            ev_LoadMatchmakingSettings ''user-1'',
            ev_CustomCounter ''partyregistry_error_party_full'',
            ev_TrackMulti ''session-1'' ''+label.open:T   properties.party_group:group-1^5'',
            ev_CustomCounter ''matchmaker_tickets'',
            ev_MatchmakerAdd ''session-1'' (Some (NewV5 ''group-1''))
              ''+label.open:T   properties.party_group:group-1^5'' 2 8 2
              [(''party_group'', ''group-1''), (''evr_id'', ''OVR-ORG-1'')] []]\<rparr>)"
proof -
  let ?w0 = "world_party party_full"
  let ?w4 = "emit [ev_LoadMatchmakingSettings ''user-1'']
              (emit [ev_LoadMatchmakingSettings SystemUserID] (emit [ev_BuildQuery []] ?w0))"
  let ?q = "''+label.open:T   properties.party_group:group-1^5''"
  have p: "partyStep env_party ?w4 session_1 (settings_1\<lparr>GroupID := ''group-1''\<rparr>) ''+label.open:T  '' [] =
      ((NewV5 ''group-1'', ?q, [(''party_group'', ''group-1'')]),
       (emit [ev_CustomCounter ''partyregistry_error_party_full''] ?w4)\<lparr>Party := Some party_full\<rparr>)"
    by (simp add: partyStep_def join_full emit_parties world_party_simps session_1_simps party_full_simps)
  have "MatchMake env_party ?w0 session_1 =
      submitTicket env_party ((emit [ev_CustomCounter ''partyregistry_error_party_full''] ?w4)\<lparr>Party := Some party_full\<rparr>)
        session_1 settings_1 (NewV5 ''group-1'') ?q [(''party_group'', ''group-1'')] []"
    by (simp add: MatchMake_def PingEndpoints_empty world_party_simps env_party_simps session_1_simps
        settings_1_simps p)
  also have "\<dots> = (Inr ''ticket-1'',
      (world_party party_full)
        \<lparr>Party := Some party_full,
         tickets := [(''ticket-1'', ?q)],
         events :=
           [ev_BuildQuery [],
            ev_LoadMatchmakingSettings SystemUserID,
            ev_LoadMatchmakingSettings ''user-1'',
            ev_CustomCounter ''partyregistry_error_party_full'',
            ev_TrackMulti ''session-1'' ?q,
            ev_CustomCounter ''matchmaker_tickets'',
            ev_MatchmakerAdd ''session-1'' (Some (NewV5 ''group-1'')) ?q 2 8 2
              [(''party_group'', ''group-1''), (''evr_id'', ''OVR-ORG-1'')] []]\<rparr>)"
    by (simp add: submitTicket_def env_party_simps session_1_simps settings_1_simps emit_def
        world_party_def world_0_def)
  finally show ?thesis .
qed

text \<open>
  The outcomes of \<open>joinPartyGroup\<close> and what \<open>MatchMake\<close>'s party step makes of them. With
  an existing party of the group at its maximum size, \<open>joinPartyGroup\<close> joins nothing and
  returns the party's handler with a resource-exhausted error; with room, the player joins
  the existing party; with no party, one is created. When the player's settings name a
  group, the party step takes the party id from the handler \<open>joinPartyGroup\<close> returned,
  makes it the session's party and adds the group to the query and the properties,
  whatever the error.
\<close>

lemma joinPartyGroup_outcomes:
  "(map_of (parties w) (NewV5 groupID) = Some ph \<and> \<not> int (length (party_members ph)) < party_maxSize ph \<longrightarrow>
      joinPartyGroup e w userID sessionID username nodeName groupID =
        ((ph, Some (Status ResourceExhausted ''Party is full'' None)),
         emit [ev_CustomCounter ''partyregistry_error_party_full''] w)) \<and>
   (map_of (parties w) (NewV5 groupID) = Some ph \<and> int (length (party_members ph)) < party_maxSize ph \<longrightarrow>
      joinPartyGroup e w userID sessionID username nodeName groupID =
        ((ph, None),
         emit [ev_PartyJoin (NewV5 groupID)
                 [\<lparr>presence_Node = nodeName, presence_SessionID = sessionID,
                   presence_UserID = userID, presence_Username = username\<rparr>]] w)) \<and>
   (map_of (parties w) (NewV5 groupID) = None \<longrightarrow>
      joinPartyGroup e w userID sessionID username nodeName groupID =
        ((PartyCreate e True 8 \<lparr>up_UserId = userID, up_SessionId = sessionID, up_Username = username\<rparr>, None),
         emit [ev_CustomCounter ''partyregistry_create'',
               ev_PartyCreate True 8 \<lparr>up_UserId = userID, up_SessionId = sessionID, up_Username = username\<rparr>] w)) \<and>
   (GroupID config \<noteq> [] \<longrightarrow>
      (\<exists>ph' err w'.
         joinPartyGroup e w (session_UserID session) (session_ID session) (session_Username session)
           (node session) (GroupID config) = ((ph', err), w') \<and>
         partyStep e w session config query stringProps =
           ((party_ID ph', query @ '' properties.party_group:'' @ GroupID config @ ''^5'',
             store ''party_group'' (GroupID config) stringProps), w'\<lparr>Party := Some ph'\<rparr>)))"
proof (intro conjI impI)
  assume "GroupID config \<noteq> []"
  moreover obtain ph' err w' where
    "joinPartyGroup e w (session_UserID session) (session_ID session) (session_Username session)
           (node session) (GroupID config) = ((ph', err), w')"
    by (metis surj_pair)
  ultimately show "\<exists>ph' err w'.
         joinPartyGroup e w (session_UserID session) (session_ID session) (session_Username session)
           (node session) (GroupID config) = ((ph', err), w') \<and>
         partyStep e w session config query stringProps =
           ((party_ID ph', query @ '' properties.party_group:'' @ GroupID config @ ''^5'',
             store ''party_group'' (GroupID config) stringProps), w'\<lparr>Party := Some ph'\<rparr>)"
    by (simp add: partyStep_def)
qed (simp_all add: joinPartyGroup_def Let_def)

text \<open>
  C6 (the code at a party that is full). The player's settings name the group
  \<open>group-1\<close>, whose party has as many members as its maximum size. \<open>joinPartyGroup\<close>
  returns the resource-exhausted error; \<open>MatchMake\<close>, which returns on every other error
  it checks, logs this one and goes on as if the player had joined: it returns a ticket,
  submitted under the full party's id, and the full party is the session's party, with no
  join of the party made. The claim has the flow not proceed as if joined.
\<close>

theorem MatchMake_proceeds_with_full_party:
  "map_of (parties (world_party party_full)) (NewV5 ''group-1'') = Some party_full \<and>
   \<not> int (length (party_members party_full)) < party_maxSize party_full \<and>
   fst (MatchMake env_party (world_party party_full) session_1) = Inr ''ticket-1'' \<and>
   Party (snd (MatchMake env_party (world_party party_full) session_1)) = Some party_full \<and>
   events (snd (MatchMake env_party (world_party party_full) session_1)) =
     [ev_BuildQuery [],
      ev_LoadMatchmakingSettings SystemUserID,
      ev_LoadMatchmakingSettings ''user-1'',
      ev_CustomCounter ''partyregistry_error_party_full'',
      ev_TrackMulti ''session-1'' ''+label.open:T   properties.party_group:group-1^5'',
      ev_CustomCounter ''matchmaker_tickets'',
      ev_MatchmakerAdd ''session-1'' (Some (NewV5 ''group-1''))
        ''+label.open:T   properties.party_group:group-1^5'' 2 8 2
        [(''party_group'', ''group-1''), (''evr_id'', ''OVR-ORG-1'')] []]"
  by (simp add: MatchMake_full_party world_party_simps party_full_simps)


subsection \<open>Broadcaster registration\<close>

lemma events_authenticateBroadcaster:
  "authenticateBroadcaster e w discordId password = (Inr (userId, username), w1) \<Longrightarrow>
   w1 = emit [ev_BroadcasterSession userId (''broadcaster:'' @ username)] w"
  by (auto simp: authenticateBroadcaster_def Let_def split: sum.splits option.splits prod.splits)

lemma emit_registry:
  "matchBySession (emit evs w) = matchBySession w"
  "broadcasterRegistrationBySession (emit evs w) = broadcasterRegistrationBySession w"
  by (simp_all add: emit_def)

lemma errFailedRegistration_world:
  "snd (errFailedRegistration w session err code) =
     emit ([ev_SendEvr [BroadcasterRegistrationFailure code]] @
           (if SendEvr session [BroadcasterRegistrationFailure code] = None then [ev_Close err] else [])) w"
  by (simp add: errFailedRegistration_def Let_def emit_def split: option.splits)

lemma extract_b:
  "extractAuthenticationDetailsFromContext ctx_b = Inr (''1234'', ''secret'', [], [])"
  by (simp add: extractAuthenticationDetailsFromContext_def ctx_b_def Trim_def)

lemma auth_b:
  "authenticateBroadcaster reg_env_1 w ''1234'' ''secret'' =
     (Inr (''user-b'', ''host''), emit [ev_BroadcasterSession ''user-b'' ''broadcaster:host''] w)"
  by (simp add: authenticateBroadcaster_def reg_env_1_def)

lemma healthcheck_timeout:
  "BroadcasterHealthcheck (network reg_env_1 ip port timeout) =
     (- 1, Some (Errorf ''ping request timed out'' None))"
  by (simp add: BroadcasterHealthcheck_def reg_env_1_def probe_timeout_def)

lemma session_b_simps:
  "ClientIP session_b = ''203.0.113.7''" "ClientIP session_b_broken = ''203.0.113.7''"
  "SendEvr session_b msgs = None" "SendEvr session_b_broken msgs = Some (External ''connection reset'')"
  by (simp_all add: session_b_def session_b_broken_def session_1_def)

lemma reg_env_1_simps:
  "isPrivateIP reg_env_1 ip = False"
  by (simp add: reg_env_1_def)

lemma sendDiscordError_world:
  "matchBySession (sendDiscordError e w err discordId) = matchBySession w"
  "broadcasterRegistrationBySession (sendDiscordError e w err discordId) =
     broadcasterRegistrationBySession w"
  by (simp_all add: sendDiscordError_def emit_registry Let_def split: option.splits)

lemma reg_env_1_bot:
  "ParseIP reg_env_1 ip = ip" "GetBot reg_env_1" "UserChannelCreate reg_env_1 ''1234'' = Some ''dm-1234''"
  by (simp_all add: reg_env_1_def)

lemma discord_b:
  "sendDiscordError reg_env_1 w err ''1234'' =
     emit [ev_UserChannelCreate ''1234'', ev_ChannelMessageSend ''dm-1234'' err] w"
  by (simp add: sendDiscordError_def reg_env_1_bot emit_def)

text \<open>
  The stage of the health check. When the authentication passes and the health check of
  the broadcaster's endpoint returns a negative round-trip time or an error, the handler
  returns an error there: after the broadcaster's session is set up, the calls made are
  those of \<open>sendDiscordError\<close>, the send of the registration failure message and, when that
  send succeeds, the close of the connection; no match is created, no match is recorded
  for the connection, and no registration is stored.
\<close>

lemma registration_stops_at_connectivity_check:
  assumes "extractAuthenticationDetailsFromContext ctx = Inr (discordId, password, tags, guildIds)"
    and "authenticateBroadcaster e w discordId password = (Inr (userId, username), w1)"
    and "extIP = (if isPrivateIP e (ParseIP e (ClientIP session)) then externalIP e
                  else ParseIP e (ClientIP session))"
    and "BroadcasterHealthcheck (network e extIP (unat (req_Port request)) (500 * Millisecond)) = (rtt, err)"
    and "rtt < 0 \<or> err \<noteq> None"
  shows "\<exists>failure w'.
           broadcasterRegistrationRequest e w ctx session request = (Some failure, w') \<and>
           events w' =
             events (sendDiscordError e w1 err discordId) @
             [ev_SendEvr [BroadcasterRegistrationFailure BroadcasterRegistration_Failure]] @
             (if SendEvr session [BroadcasterRegistrationFailure BroadcasterRegistration_Failure] = None
              then [ev_Close (Errorf ''broadcaster failed availability check'' err)] else []) \<and>
           matchBySession w' = matchBySession w \<and>
           broadcasterRegistrationBySession w' = broadcasterRegistrationBySession w"
proof -
  let ?r = "errFailedRegistration (sendDiscordError e w1 err discordId) session
              (Errorf ''broadcaster failed availability check'' err) BroadcasterRegistration_Failure"
  have w1: "w1 = emit [ev_BroadcasterSession userId (''broadcaster:'' @ username)] w"
    using assms(2) by (rule events_authenticateBroadcaster)
  have "broadcasterRegistrationRequest e w ctx session request = failed ?r"
    using assms by (simp add: broadcasterRegistrationRequest_def broadcasterConfig_def Let_def)
  then have "broadcasterRegistrationRequest e w ctx session request = (Some (fst ?r), snd ?r)"
    by (simp add: failed_def)
  moreover have "events (snd ?r) =
             events (sendDiscordError e w1 err discordId) @
             [ev_SendEvr [BroadcasterRegistrationFailure BroadcasterRegistration_Failure]] @
             (if SendEvr session [BroadcasterRegistrationFailure BroadcasterRegistration_Failure] = None
              then [ev_Close (Errorf ''broadcaster failed availability check'' err)] else [])"
    by (simp add: errFailedRegistration_world events_emit)
  moreover have "matchBySession (snd ?r) = matchBySession w"
    "broadcasterRegistrationBySession (snd ?r) = broadcasterRegistrationBySession w"
    by (simp_all add: errFailedRegistration_world w1 emit_registry sendDiscordError_world)
  ultimately show ?thesis by blast
qed

lemma registration_b:
  "broadcasterRegistrationRequest reg_env_1 world_0 ctx_b session request_b =
     failed (errFailedRegistration
       (emit [ev_UserChannelCreate ''1234'',
              ev_ChannelMessageSend ''dm-1234'' (Some (Errorf ''ping request timed out'' None))]
          (emit [ev_BroadcasterSession ''user-b'' ''broadcaster:host''] world_0))
       session
       (Errorf ''broadcaster failed availability check'' (Some (Errorf ''ping request timed out'' None)))
       BroadcasterRegistration_Failure)"
  by (simp add: broadcasterRegistrationRequest_def extract_b auth_b healthcheck_timeout discord_b Let_def)

text \<open>
  C5 (the code on a connection that does not take the failure message). The broadcaster
  authenticates, its endpoint does not answer the health check within the deadline, and
  the send of the registration failure message fails. \<open>errFailedRegistration\<close> returns
  the send's error before it reaches the close: the handler returns that error and the
  connection is not closed, where the claim, and the function's own comment, have the
  connection closed. On a connection that takes the message, the close follows the send.
\<close>

theorem registration_failure_unsent_leaves_connection_open:
  "BroadcasterHealthcheck
     (network reg_env_1 (ParseIP reg_env_1 (ClientIP session_b_broken)) (unat (req_Port request_b))
        (500 * Millisecond)) =
     (- 1, Some (Errorf ''ping request timed out'' None)) \<and>
   SendEvr session_b_broken [BroadcasterRegistrationFailure BroadcasterRegistration_Failure] =
     Some (External ''connection reset'') \<and>
   broadcasterRegistrationRequest reg_env_1 world_0 ctx_b session_b_broken request_b =
     (Some (Errorf ''failed to send lobby registration failure'' (Some (External ''connection reset''))),
      world_0\<lparr>events :=
        [ev_BroadcasterSession ''user-b'' ''broadcaster:host'',
         ev_UserChannelCreate ''1234'',
         ev_ChannelMessageSend ''dm-1234'' (Some (Errorf ''ping request timed out'' None)),
         ev_SendEvr [BroadcasterRegistrationFailure BroadcasterRegistration_Failure]]\<rparr>) \<and>
   broadcasterRegistrationRequest reg_env_1 world_0 ctx_b session_b request_b =
     (Some (Errorf ''failed to register game server''
              (Some (Errorf ''broadcaster failed availability check''
                       (Some (Errorf ''ping request timed out'' None))))),
      world_0\<lparr>events :=
        [ev_BroadcasterSession ''user-b'' ''broadcaster:host'',
         ev_UserChannelCreate ''1234'',
         ev_ChannelMessageSend ''dm-1234'' (Some (Errorf ''ping request timed out'' None)),
         ev_SendEvr [BroadcasterRegistrationFailure BroadcasterRegistration_Failure],
         ev_Close (Errorf ''broadcaster failed availability check''
                     (Some (Errorf ''ping request timed out'' None)))]\<rparr>)"
  unfolding registration_b
  by (simp add: healthcheck_timeout failed_def errFailedRegistration_def session_b_simps emit_def
      world_0_def)


end
